theory Spec2Isabelle
  imports Complex_Main
begin

unbundle bit_operations_syntax

section \<open>Data model\<close>

text \<open>
  A shallow embedding of the game orchestrator of Ursinaxball (\<^verbatim>\<open>ursinaxball/game.py\<close>),
  of the ball resolution of the stadium loader (\<^verbatim>\<open>objects/base/ball.py\<close>) and of the action
  recorder (\<^verbatim>\<open>modules/systems/game_recorder.py\<close>).

  Positions and velocities are numpy arrays of two 64-bit floats. A coordinate is modelled
  as the real number that the float stands for; the arithmetic that the goal detector and the
  kickoff handler do on coordinates is floating-point arithmetic, whose operations are
  parameters of the model (see below), so that nothing here depends on how they round.
  Python integers are \<open>int\<close>. Objects that the program shares and mutates (the discs) live in
  an explicit store.
\<close>

type_synonym vec = "real \<times> real"

datatype TeamID = SPECTATOR | RED | BLUE

datatype GameState = KICKOFF | PLAYING | GOAL | END

text \<open>The exceptions that the modelled code can raise: Python's built-in ones, and the
  \<^verbatim>\<open>ValidationError\<close> of \<^verbatim>\<open>msgspec.convert\<close>.\<close>

datatype error =
  IndexError | TypeError | ValueError | OverflowError | AttributeError | FileNotFoundError
  | ValidationError

text \<open>
  A disc. \<^verbatim>\<open>game.py\<close> reads and writes \<open>position\<close> (which may be \<^verbatim>\<open>None\<close>),
  \<open>velocity\<close>, \<open>collision_group\<close>, \<open>collision_mask\<close> and \<open>player_id\<close>;
  \<^verbatim>\<open>ball.py\<close> builds a disc from the keywords \<^verbatim>\<open>position, speed, gravity, radius, inv_mass,
  damping, b_coef, color, c_group, c_mask\<close>, where \<^verbatim>\<open>speed\<close>, \<^verbatim>\<open>c_group\<close> and
  \<^verbatim>\<open>c_mask\<close> are the fields \<open>velocity\<close>, \<open>collision_group\<close> and \<open>collision_mask\<close>.
  Collision groups and masks are integer bit masks (\<^verbatim>\<open>CollisionFlag\<close> is an integer flag
  enumeration).
\<close>

record Disc =
  position :: "vec option"
  velocity :: vec
  gravity :: vec
  radius :: real
  inv_mass :: real
  damping :: real
  b_coef :: real
  color :: "int \<times> int \<times> int \<times> int"
  collision_group :: int
  collision_mask :: int
  player_id :: "int option"

text \<open>\<^verbatim>\<open>Goal\<close>: \<open>points\<close> holds \<^verbatim>\<open>p0\<close> and \<^verbatim>\<open>p1\<close>, an array of floats as the positions
  are; \<open>team\<close> is the value of the key \<^verbatim>\<open>"team"\<close>, \<^verbatim>\<open>None\<close> when the key is absent.\<close>

record Goal =
  points :: "vec \<times> vec"
  team :: "string option"

text \<open>A reference to a disc object, and the store of the disc objects.\<close>

type_synonym ref = nat
type_synonym heap = "ref \<Rightarrow> Disc"

text \<open>
  \<^verbatim>\<open>Stadium\<close>, with the fields that the orchestrator uses. The live stadium
  (\<^verbatim>\<open>stadium_game\<close>) holds references to the disc objects that the tick mutates and that
  the players share; the template (\<^verbatim>\<open>stadium_store\<close>) is only ever read, so its discs
  are values.
\<close>

record 'd Stadium =
  discs :: "'d list"
  goals :: "Goal list"
  kickoff_reset :: string
  spawn_distance :: real
  red_spawn_points :: "vec list"
  blue_spawn_points :: "vec list"
  player_physics :: Disc

text \<open>\<^verbatim>\<open>PlayerHandler\<close>: \<open>ident\<close> is the attribute \<^verbatim>\<open>id\<close>; \<open>disc\<close> refers to the
  player's disc object, which \<^verbatim>\<open>start()\<close> also appends to the live stadium's discs.\<close>

record PlayerHandler =
  name :: string
  ident :: int
  team :: TeamID
  disc :: ref
  action :: "int list"
  kicking :: bool
  kick_cancel :: bool

text \<open>
  Modelled from the spec: \<^verbatim>\<open>GameScore\<close> (\<^verbatim>\<open>modules/systems\<close>) is not among the
  sources. The data model of the specification gives it the goals of both teams, the elapsed
  ticks, the two limits and the animation counter; the orchestrator itself reads \<^verbatim>\<open>red\<close>,
  \<^verbatim>\<open>blue\<close> and decrements \<^verbatim>\<open>animation_timeout\<close>.
\<close>

record GameScore =
  red :: int
  blue :: int
  ticks :: int
  time_limit :: int
  score_limit :: int
  animation_timeout :: int

section \<open>Actions\<close>

text \<open>
  A cell of an action row, by what \<^verbatim>\<open>int(x)\<close> does on it: \<open>CNone\<close> is \<^verbatim>\<open>None\<close>;
  \<open>CInt n\<close> is a value that \<^verbatim>\<open>int\<close> converts to \<open>n\<close> (the integer \<open>n\<close> itself, for one);
  \<open>CRaise e\<close> is a value on which \<^verbatim>\<open>int\<close> raises the exception \<open>e\<close> (\<^verbatim>\<open>TypeError\<close> on a
  list, \<^verbatim>\<open>ValueError\<close> on a string that is no numeral and on a float that is not a number,
  \<^verbatim>\<open>OverflowError\<close> on an infinite float). An action is \<^verbatim>\<open>None\<close>, a numpy array (the
  cells of \<^verbatim>\<open>action.tolist()\<close>; where that is no list of numbers, for an array that is not
  one-dimensional, the comprehension raises \<^verbatim>\<open>TypeError\<close> as on a cell \<open>CRaise TypeError\<close>),
  a list or tuple of cells, or a value of any other type.
\<close>

datatype cell = CNone | CInt int | CRaise error

datatype ActionType = ActNone | ActArray "cell list" | ActSeq "cell list" | ActOther

definition DEFAULT_ACTION :: "int list" where
  "DEFAULT_ACTION = [0, 0, 0]"

text \<open>\<^verbatim>\<open>int(x)\<close>, and \<^verbatim>\<open>0 if x is None else int(x)\<close>.\<close>

fun int_builtin :: "cell \<Rightarrow> error + int" where
  "int_builtin CNone = Inl TypeError"
| "int_builtin (CInt n) = Inr n"
| "int_builtin (CRaise e) = Inl e"

definition zero_if_none :: "cell \<Rightarrow> error + int" where
  "zero_if_none x = (if x = CNone then Inr 0 else int_builtin x)"

text \<open>A list comprehension \<^verbatim>\<open>[f(x) for x in xs]\<close>: the first exception ends it.\<close>

fun comprehension :: "('a \<Rightarrow> error + 'b) \<Rightarrow> 'a list \<Rightarrow> error + 'b list" where
  "comprehension f [] = Inr []"
| "comprehension f (x # xs) =
     (case f x of
        Inl e \<Rightarrow> Inl e
      | Inr y \<Rightarrow> (case comprehension f xs of Inl e \<Rightarrow> Inl e | Inr ys \<Rightarrow> Inr (y # ys)))"

text \<open>\<^verbatim>\<open>normalize_action\<close>: the handler \<^verbatim>\<open>except (TypeError, ValueError)\<close> gives the default;
  any other exception leaves the function.\<close>

definition except_type_value :: "error + int list \<Rightarrow> error + int list" where
  "except_type_value body =
     (case body of
        Inl e \<Rightarrow> (if e = TypeError \<or> e = ValueError then Inr DEFAULT_ACTION else Inl e)
      | Inr xs \<Rightarrow> Inr xs)"

fun normalize_action :: "ActionType \<Rightarrow> error + int list" where
  "normalize_action ActNone = Inr DEFAULT_ACTION"
| "normalize_action (ActArray cs) = except_type_value (comprehension int_builtin cs)"
| "normalize_action (ActSeq cs) = except_type_value (comprehension zero_if_none cs)"
| "normalize_action ActOther = except_type_value (Inr DEFAULT_ACTION)"

section \<open>Operations and constants that are not among the sources\<close>

text \<open>
  The orchestrator calls into modules of the repository that are not among the sources at
  hand: the flag enumerations, the disc class, the player handler, the physics and the score.
  They are parameters of the model, collected in one record, so that every theorem below
  holds whatever these operations compute. Their footprints are fixed by the types:
  \<^item> \<open>CollisionFlag_X\<close>: the member \<^verbatim>\<open>CollisionFlag.X\<close>; \<open>CollisionFlag_from_list\<close>: the
    class method \<^verbatim>\<open>CollisionFlag.from_list\<close>;
  \<^item> \<open>TeamID_value\<close>: the integer value of a \<^verbatim>\<open>TeamID\<close> member;
  \<^item> \<open>INPUT_X\<close>: the input bits of \<^verbatim>\<open>common_values\<close>;
  \<^item> \<open>Disc_copy target source\<close>: \<^verbatim>\<open>target.copy(source)\<close>, the new value of the target;
  \<^item> \<open>set_color player d\<close>: \<^verbatim>\<open>player.set_color()\<close>, the new value of the player's disc;
  \<^item> \<open>resolve_movement stadium score player h\<close>: \<^verbatim>\<open>player.resolve_movement(stadium, score)\<close>,
    the new value of the player and of the disc store;
  \<^item> \<open>update_discs\<close>, \<open>resolve_collisions\<close>: the physics of one tick on the disc store;
  \<^item> \<open>score_step\<close>, \<open>update_score\<close>, \<open>is_game_over\<close>, \<open>is_animation\<close>,
    \<open>end_animation\<close>: the methods of \<^verbatim>\<open>GameScore\<close>.

  The record also holds the floating-point arithmetic of numpy, which is no part of the
  repository either. The results of the operations (the 64-bit floats, with the infinities
  and the values that are not numbers) form the type \<open>'f\<close>:
  \<^item> \<open>float_of x\<close>: the float that a coordinate \<open>x\<close> is; \<open>float_sub\<close>, \<open>float_mul\<close>:
    the rounded difference and product; \<open>float_le_zero x\<close>: the comparison \<^verbatim>\<open>x <= 0\<close>;
  \<^item> \<open>norm_positive v\<close>: the comparison \<^verbatim>\<open>np.linalg.norm(v) > 0\<close>.
\<close>

record 'f externals =
  CollisionFlag_BALL :: int
  CollisionFlag_RED :: int
  CollisionFlag_BLUE :: int
  CollisionFlag_REDKO :: int
  CollisionFlag_BLUEKO :: int
  CollisionFlag_KICK :: int
  CollisionFlag_SCORE :: int
  CollisionFlag_PLAYER_COLLISION :: int
  CollisionFlag_from_list :: "string list \<Rightarrow> int"
  TeamID_value :: "TeamID \<Rightarrow> int"
  INPUT_UP :: int
  INPUT_DOWN :: int
  INPUT_LEFT :: int
  INPUT_RIGHT :: int
  INPUT_SHOOT :: int
  Disc_copy :: "Disc \<Rightarrow> Disc \<Rightarrow> Disc"
  set_color :: "PlayerHandler \<Rightarrow> Disc \<Rightarrow> Disc"
  resolve_movement :: "ref Stadium \<Rightarrow> GameScore \<Rightarrow> PlayerHandler \<Rightarrow> heap \<Rightarrow> PlayerHandler \<times> heap"
  update_discs :: "ref Stadium \<Rightarrow> PlayerHandler list \<Rightarrow> heap \<Rightarrow> heap"
  resolve_collisions :: "ref Stadium \<Rightarrow> heap \<Rightarrow> heap"
  score_step :: "GameState \<Rightarrow> GameScore \<Rightarrow> GameScore"
  update_score :: "TeamID \<Rightarrow> GameScore \<Rightarrow> GameScore"
  is_game_over :: "GameScore \<Rightarrow> bool"
  is_animation :: "GameScore \<Rightarrow> bool"
  end_animation :: "GameScore \<Rightarrow> GameScore"
  float_of :: "real \<Rightarrow> 'f"
  float_sub :: "'f \<Rightarrow> 'f \<Rightarrow> 'f"
  float_mul :: "'f \<Rightarrow> 'f \<Rightarrow> 'f"
  float_le_zero :: "'f \<Rightarrow> bool"
  norm_positive :: "vec \<Rightarrow> bool"

section \<open>The action recorder\<close>

text \<open>The values that the recorder stores and that \<^verbatim>\<open>msgpack\<close> packs: integers, strings
  and lists.\<close>

datatype pyval = PInt int | PStr string | PList "pyval list"

text \<open>\<^verbatim>\<open>GameActionRecorder\<close>. Its attribute \<^verbatim>\<open>game\<close> is a reference back to the game; the
  functions below take what they read of the game as arguments.\<close>

record Recorder =
  folder_rec :: string
  filename :: string
  recording :: pyval
  player_info :: "pyval list"
  player_action :: "pyval list"
  options :: "pyval list"

text \<open>\<^verbatim>\<open>str(n)\<close> for an integer: its decimal digits.\<close>

fun str_nat :: "nat \<Rightarrow> string" where
  "str_nat n = (if n < 10 then [char_of (48 + n)] else str_nat (n div 10) @ [char_of (48 + n mod 10)])"

definition str_int :: "int \<Rightarrow> string" where
  "str_int i = (if i < 0 then CHR ''-'' # str_nat (nat (- i)) else str_nat (nat i))"

text \<open>\<^verbatim>\<open>input_translate_js\<close>: the three reads fail on a row shorter than three.\<close>

definition input_translate_js :: "'f externals \<Rightarrow> int list \<Rightarrow> error + int" where
  "input_translate_js X actions =
     (if length actions < 3 then Inl IndexError
      else
        let result = 0;
            result = (if actions ! 0 = -1 then result + INPUT_LEFT X
                      else if actions ! 0 = 1 then result + INPUT_RIGHT X else result);
            result = (if actions ! 1 = -1 then result + INPUT_DOWN X
                      else if actions ! 1 = 1 then result + INPUT_UP X else result);
            result = (if actions ! 2 \<noteq> 0 then result + INPUT_SHOOT X else result)
        in Inr result)"

text \<open>\<^verbatim>\<open>GameActionRecorder.start\<close>, given the game's players and kickoff team.\<close>

definition recorder_start :: "'f externals \<Rightarrow> PlayerHandler list \<Rightarrow> TeamID \<Rightarrow> Recorder \<Rightarrow> Recorder" where
  "recorder_start X ps tk r =
     r\<lparr>player_info :=
         map (\<lambda>player. PList [PStr (name player), PStr (str_int (ident player)),
                               PInt (TeamID_value X (team player))]) ps,
       player_action := map (\<lambda>_. PList []) ps,
       options := [PInt (TeamID_value X tk * 8)]\<rparr>"

text \<open>\<^verbatim>\<open>GameActionRecorder.step\<close>: the loop over \<^verbatim>\<open>enumerate(actions)\<close>, \<open>i\<close> being the
  index of the first remaining row (\<^verbatim>\<open>action\<close> in the source). \<^verbatim>\<open>self.player_action[i]\<close> raises past the end of the
  list, and \<^verbatim>\<open>append\<close> exists on lists only.\<close>

fun recorder_step_loop :: "'f externals \<Rightarrow> nat \<Rightarrow> int list list \<Rightarrow> pyval list \<Rightarrow> error + pyval list" where
  "recorder_step_loop X i [] pa = Inr pa"
| "recorder_step_loop X i (row # rest) pa =
     (if i < length pa then
        (case pa ! i of
           PList xs \<Rightarrow>
             (case input_translate_js X row of
                Inl e \<Rightarrow> Inl e
              | Inr v \<Rightarrow> recorder_step_loop X (Suc i) rest (pa[i := PList (xs @ [PInt v])]))
         | _ \<Rightarrow> Inl AttributeError)
      else Inl IndexError)"

definition recorder_step :: "'f externals \<Rightarrow> int list list \<Rightarrow> Recorder \<Rightarrow> error + Recorder" where
  "recorder_step X actions r =
     (case recorder_step_loop X 0 actions (player_action r) of
        Inl e \<Rightarrow> Inl e
      | Inr pa \<Rightarrow> Inr (r\<lparr>player_action := pa\<rparr>))"

text \<open>
  \<^verbatim>\<open>generate_replay_name\<close>: \<open>now\<close> is \<^verbatim>\<open>int(time.time())\<close>, \<open>py_str\<close> is Python's
  \<^verbatim>\<open>str\<close> on the first option. Called only when \<open>options\<close> is not empty.
\<close>

definition generate_replay_name :: "(pyval \<Rightarrow> string) \<Rightarrow> int \<Rightarrow> GameScore \<Rightarrow> Recorder \<Rightarrow> string" where
  "generate_replay_name py_str now sc r =
     ''HBR_'' @ str_int now @ ''_'' @ str_int (red sc) @ ''-'' @ str_int (blue sc) @ ''_''
       @ py_str (hd (options r)) @ ''.hbar''"

text \<open>
  The file system: for every path the error that \<^verbatim>\<open>open(path, "wb+")\<close> raises there
  (\<^verbatim>\<open>FileNotFoundError\<close> when the folder of the path does not exist), \<open>None\<close> when the file can
  be opened for writing; and the contents of the files that exist. \<open>path_join\<close> is
  \<^verbatim>\<open>os.path.join(os.path.curdir, folder, file_name)\<close>, \<open>packb\<close> and \<open>unpackb\<close> are the
  functions of \<^verbatim>\<open>msgpack\<close>, which raise on a value or on bytes that they reject; the type
  of the packed bytes is left open.
\<close>

record 'b files =
  open_error :: "string \<Rightarrow> error option"
  contents :: "string \<Rightarrow> 'b option"

text \<open>\<^verbatim>\<open>GameActionRecorder.save\<close>: the file is opened first, then the recording is packed
  and written.\<close>

definition save ::
  "(string \<Rightarrow> string \<Rightarrow> string) \<Rightarrow> (pyval \<Rightarrow> error + 'b) \<Rightarrow> Recorder \<Rightarrow> string \<Rightarrow> 'b files
     \<Rightarrow> error + 'b files" where
  "save path_join packb r file_name fs =
     (let path = path_join (folder_rec r) file_name
      in case open_error fs path of
           Some e \<Rightarrow> Inl e
         | None \<Rightarrow>
             (case packb (recording r) of
                Inl e \<Rightarrow> Inl e
              | Inr encoded_recording \<Rightarrow>
                  Inr (fs\<lparr>contents := (contents fs)(path \<mapsto> encoded_recording)\<rparr>)))"

text \<open>\<^verbatim>\<open>GameActionRecorder.stop\<close>: the new recorder and the new file system. An exception
  of \<^verbatim>\<open>save\<close> leaves \<^verbatim>\<open>stop\<close> before the recorder is emptied.\<close>

definition recorder_stop ::
  "(pyval \<Rightarrow> string) \<Rightarrow> (string \<Rightarrow> string \<Rightarrow> string) \<Rightarrow> (pyval \<Rightarrow> error + 'b) \<Rightarrow> int
     \<Rightarrow> GameScore \<Rightarrow> bool \<Rightarrow> Recorder \<Rightarrow> 'b files \<Rightarrow> error + (Recorder \<times> 'b files)" where
  "recorder_stop py_str path_join packb now sc save_flag r fs =
     (let players_list = map (\<lambda>(info, act). PList [info, act]) (zip (player_info r) (player_action r))
      in case (if length (options r) > 0 then
                 let r' = r\<lparr>recording := PList [hd (options r), PList players_list]\<rparr>;
                     r'' = r'\<lparr>filename := generate_replay_name py_str now sc r'\<rparr>
                 in if save_flag then
                      (case save path_join packb r'' (filename r'') fs of
                         Inl e \<Rightarrow> Inl e
                       | Inr fs' \<Rightarrow> Inr (r'', fs'))
                    else Inr (r'', fs)
               else Inr (r, fs)) of
           Inl e \<Rightarrow> Inl e
         | Inr (r1, fs1) \<Rightarrow>
             Inr (r1\<lparr>recording := PList [], player_info := [], player_action := [], options := []\<rparr>,
                  fs1))"

text \<open>\<^verbatim>\<open>v[i]\<close> and the iteration over \<^verbatim>\<open>v\<close>, for a packed value.\<close>

fun py_index :: "pyval \<Rightarrow> nat \<Rightarrow> error + pyval" where
  "py_index (PList xs) i = (if i < length xs then Inr (xs ! i) else Inl IndexError)"
| "py_index (PStr cs) i = (if i < length cs then Inr (PStr [cs ! i]) else Inl IndexError)"
| "py_index (PInt n) i = Inl TypeError"

fun py_iter :: "pyval \<Rightarrow> error + pyval list" where
  "py_iter (PList xs) = Inr xs"
| "py_iter (PStr cs) = Inr (map (\<lambda>c. PStr [c]) cs)"
| "py_iter (PInt n) = Inl TypeError"

text \<open>The target \<^verbatim>\<open>info, _\<close> (or \<^verbatim>\<open>_, action\<close>) of the two comprehensions: the item
  must unpack into exactly two values.\<close>

fun unpack_pair :: "pyval \<Rightarrow> error + (pyval \<times> pyval)" where
  "unpack_pair (PList [a, b]) = Inr (a, b)"
| "unpack_pair (PList xs) = Inl ValueError"
| "unpack_pair (PStr [a, b]) = Inr (PStr [a], PStr [b])"
| "unpack_pair (PStr cs) = Inl ValueError"
| "unpack_pair (PInt n) = Inl TypeError"

fun unpack_pairs :: "pyval list \<Rightarrow> error + (pyval \<times> pyval) list" where
  "unpack_pairs [] = Inr []"
| "unpack_pairs (x # xs) =
     (case unpack_pair x of
        Inl e \<Rightarrow> Inl e
      | Inr p \<Rightarrow> (case unpack_pairs xs of Inl e \<Rightarrow> Inl e | Inr ps \<Rightarrow> Inr (p # ps)))"

text \<open>
  \<^verbatim>\<open>GameActionRecorder.read_from_file\<close>: \<open>file_name\<close> is the path that is opened. A
  missing file raises, and so do \<^verbatim>\<open>unpackb\<close> on bytes it rejects, the two subscripts and
  the two comprehensions.
\<close>

definition read_from_file :: "('b \<Rightarrow> error + pyval) \<Rightarrow> Recorder \<Rightarrow> string \<Rightarrow> 'b files \<Rightarrow> error + Recorder" where
  "read_from_file unpackb r file_name fs =
     (case contents fs file_name of
        None \<Rightarrow> Inl FileNotFoundError
      | Some bytes \<Rightarrow>
          (case unpackb bytes of
             Inl e \<Rightarrow> Inl e
           | Inr v \<Rightarrow>
               (case py_index v 0 of
                  Inl e \<Rightarrow> Inl e
                | Inr v0 \<Rightarrow>
                    (case py_index v 1 of
                       Inl e \<Rightarrow> Inl e
                     | Inr v1 \<Rightarrow>
                         (case py_iter v1 of
                            Inl e \<Rightarrow> Inl e
                          | Inr items \<Rightarrow>
                              (case unpack_pairs items of
                                 Inl e \<Rightarrow> Inl e
                               | Inr ps \<Rightarrow>
                                   Inr (r\<lparr>recording := v, options := [v0],
                                          player_info := map fst ps,
                                          player_action := map snd ps\<rparr>)))))))"

text \<open>The recorder over the ticks of a game: \<^verbatim>\<open>Game.step\<close> calls
  \<^verbatim>\<open>GameActionRecorder.step\<close> once per tick with the actions of the tick.\<close>

fun recorder_steps :: "'f externals \<Rightarrow> int list list list \<Rightarrow> Recorder \<Rightarrow> error + Recorder" where
  "recorder_steps X [] r = Inr r"
| "recorder_steps X (rows # rest) r =
     (case recorder_step X rows r of Inl e \<Rightarrow> Inl e | Inr r' \<Rightarrow> recorder_steps X rest r')"

section \<open>The game\<close>

text \<open>
  \<^verbatim>\<open>Game\<close>. \<open>disc_heap\<close> is the store of the disc objects that the live stadium and the
  players refer to. The renderer draws and does not change the game; it is left out.
\<close>

record Game =
  score :: GameScore
  state :: GameState
  players :: "PlayerHandler list"
  team_kickoff :: TeamID
  stadium_store :: "Disc Stadium"
  stadium_game :: "ref Stadium"
  disc_heap :: heap
  recorder :: "Recorder option"

text \<open>\<^verbatim>\<open>Game.make_player_action\<close>: the new value of the player and of the disc store. An
  exception of \<^verbatim>\<open>normalize_action\<close> leaves the method before anything is stored.\<close>

definition make_player_action ::
  "'f externals \<Rightarrow> Game \<Rightarrow> PlayerHandler \<Rightarrow> ActionType \<Rightarrow> error + (PlayerHandler \<times> heap)" where
  "make_player_action X g player act =
     (case normalize_action act of
        Inl e \<Rightarrow> Inl e
      | Inr a \<Rightarrow>
          Inr (resolve_movement X (stadium_game g) (score g) (player\<lparr>action := a\<rparr>) (disc_heap g)))"

subsection \<open>Goal detection\<close>

text \<open>The discs of the live stadium that carry the score flag: the comprehension of
  \<^verbatim>\<open>check_goal\<close>, and (deep-copied) that of \<^verbatim>\<open>step\<close>.\<close>

definition current_disc_position :: "'f externals \<Rightarrow> Game \<Rightarrow> Disc list" where
  "current_disc_position X g =
     map (disc_heap g)
       (filter (\<lambda>r. collision_group (disc_heap g r) AND CollisionFlag_SCORE X \<noteq> 0)
          (discs (stadium_game g)))"

text \<open>
  \<^verbatim>\<open>a - b\<close> on two arrays of length two, and \<^verbatim>\<open>np.cross(a, b)\<close> on two such arrays,
  which is \<^verbatim>\<open>a[0] * b[1] - a[1] * b[0]\<close>; \<open>float_vec\<close> is the array of a position.
\<close>

definition float_vec :: "'f externals \<Rightarrow> vec \<Rightarrow> 'f \<times> 'f" where
  "float_vec X p = (float_of X (fst p), float_of X (snd p))"

definition vsub :: "'f externals \<Rightarrow> 'f \<times> 'f \<Rightarrow> 'f \<times> 'f \<Rightarrow> 'f \<times> 'f" where
  "vsub X a b = (float_sub X (fst a) (fst b), float_sub X (snd a) (snd b))"

definition cross :: "'f externals \<Rightarrow> 'f \<times> 'f \<Rightarrow> 'f \<times> 'f \<Rightarrow> 'f" where
  "cross X a b = float_sub X (float_mul X (fst a) (snd b)) (float_mul X (snd a) (fst b))"

text \<open>The inner loop of \<^verbatim>\<open>check_goal\<close> over the goals: the team of the first goal that the
  pair of discs satisfies the test with. The subtractions raise on a position that is
  \<^verbatim>\<open>None\<close>.\<close>

fun check_goal_goals :: "'f externals \<Rightarrow> Disc \<Rightarrow> Disc \<Rightarrow> Goal list \<Rightarrow> error + TeamID option" where
  "check_goal_goals X previous_disc_pos current_disc_pos [] = Inr None"
| "check_goal_goals X previous_disc_pos current_disc_pos (goal # rest) =
     (case (position previous_disc_pos, position current_disc_pos) of
        (Some pp, Some cp) \<Rightarrow>
          (let previous_p0 = vsub X (float_vec X pp) (float_vec X (fst (points goal)));
               current_p0 = vsub X (float_vec X cp) (float_vec X (fst (points goal)));
               current_p1 = vsub X (float_vec X cp) (float_vec X (snd (points goal)));
               disc_vector = vsub X (float_vec X cp) (float_vec X pp);
               goal_vector = vsub X (float_vec X (snd (points goal))) (float_vec X (fst (points goal)))
           in if float_le_zero X
                   (float_mul X (cross X current_p0 disc_vector) (cross X current_p1 disc_vector))
                 \<and> float_le_zero X
                     (float_mul X (cross X previous_p0 goal_vector) (cross X current_p0 goal_vector))
              then Inr (Some (if Goal.team goal = Some ''red'' then RED else BLUE))
              else check_goal_goals X previous_disc_pos current_disc_pos rest)
      | _ \<Rightarrow> Inl TypeError)"

text \<open>The outer loop over the zipped discs.\<close>

fun check_goal_pairs :: "'f externals \<Rightarrow> (Disc \<times> Disc) list \<Rightarrow> Goal list \<Rightarrow> error + TeamID" where
  "check_goal_pairs X [] gs = Inr SPECTATOR"
| "check_goal_pairs X ((previous_disc_pos, current_disc_pos) # rest) gs =
     (case check_goal_goals X previous_disc_pos current_disc_pos gs of
        Inl e \<Rightarrow> Inl e
      | Inr (Some team_score) \<Rightarrow> Inr team_score
      | Inr None \<Rightarrow> check_goal_pairs X rest gs)"

definition check_goal :: "'f externals \<Rightarrow> Game \<Rightarrow> Disc list \<Rightarrow> error + TeamID" where
  "check_goal X g previous_discs_position =
     check_goal_pairs X (zip previous_discs_position (current_disc_position X g))
       (goals (stadium_game g))"

subsection \<open>The state machine\<close>

text \<open>The loop over the players of \<^verbatim>\<open>_handle_kickoff_state\<close>; \<open>tk\<close> is
  \<^verbatim>\<open>self.team_kickoff\<close>.\<close>

fun kickoff_players :: "'f externals \<Rightarrow> TeamID \<Rightarrow> PlayerHandler list \<Rightarrow> heap \<Rightarrow> heap" where
  "kickoff_players X tk [] h = h"
| "kickoff_players X tk (player # rest) h =
     kickoff_players X tk rest
       (if position (h (disc player)) \<noteq> None then
          (let kickoff_collision =
                 (if tk = RED then CollisionFlag_REDKO X else CollisionFlag_BLUEKO X)
           in h(disc player := (h (disc player))
                  \<lparr>collision_mask := CollisionFlag_PLAYER_COLLISION X OR kickoff_collision\<rparr>))
        else h)"

text \<open>\<^verbatim>\<open>_handle_kickoff_state\<close>: \<^verbatim>\<open>self.stadium_game.discs[0]\<close> raises on an empty list.\<close>

definition handle_kickoff_state :: "'f externals \<Rightarrow> Game \<Rightarrow> error + Game" where
  "handle_kickoff_state X g =
     (let g1 = g\<lparr>disc_heap := kickoff_players X (team_kickoff g) (players g) (disc_heap g)\<rparr>
      in case discs (stadium_game g1) of
           [] \<Rightarrow> Inl IndexError
         | ball_disc # _ \<Rightarrow>
             Inr (if norm_positive X (velocity (disc_heap g1 ball_disc)) then g1\<lparr>state := PLAYING\<rparr>
                  else g1))"

text \<open>The loop over the players of \<^verbatim>\<open>_handle_playing_state\<close>.\<close>

fun playing_players :: "'f externals \<Rightarrow> PlayerHandler list \<Rightarrow> heap \<Rightarrow> heap" where
  "playing_players X [] h = h"
| "playing_players X (player # rest) h =
     playing_players X rest
       (if position (h (disc player)) \<noteq> None then
          h(disc player := (h (disc player))
              \<lparr>collision_mask := CollisionFlag_PLAYER_COLLISION X\<rparr>)
        else h)"

text \<open>\<^verbatim>\<open>_handle_playing_state\<close>.\<close>

definition handle_playing_state :: "'f externals \<Rightarrow> Game \<Rightarrow> Disc list \<Rightarrow> error + Game" where
  "handle_playing_state X g previous_discs_position =
     (let g1 = g\<lparr>disc_heap := playing_players X (players g) (disc_heap g)\<rparr>
      in case check_goal X g1 previous_discs_position of
           Inl e \<Rightarrow> Inl e
         | Inr team_goal \<Rightarrow>
             if team_goal \<noteq> SPECTATOR then
               (let g2 = g1\<lparr>state := GOAL\<rparr>;
                    g3 = g2\<lparr>score := update_score X team_goal (score g2)\<rparr>
                in if \<not> is_game_over X (score g3) then
                     Inr (g3\<lparr>team_kickoff := (if team_goal = BLUE then BLUE else RED)\<rparr>)
                   else Inr g3)
             else if is_game_over X (score g1) then
               Inr (g1\<lparr>state := END, score := end_animation X (score g1)\<rparr>)
             else Inr g1)"

subsection \<open>Resetting the discs\<close>

text \<open>The loop \<^verbatim>\<open>for disc_game, disc_store in zip(discs_game, discs_store)\<close>.\<close>

fun copy_discs :: "'f externals \<Rightarrow> (ref \<times> Disc) list \<Rightarrow> heap \<Rightarrow> heap" where
  "copy_discs X [] h = h"
| "copy_discs X ((disc_game, disc_store) # rest) h =
     copy_discs X rest (h(disc_game := Disc_copy X (h disc_game) disc_store))"

text \<open>
  The loop over the players of \<^verbatim>\<open>reset_discs_positions\<close>, with its two counters.
  \<^verbatim>\<open>red_spawns[index_red]\<close> raises when the index is past the end of the list; the counters
  never go below zero, so they are natural numbers, and \<^verbatim>\<open>n >> 1\<close> is \<open>drop_bit 1 n\<close>.
\<close>

fun place_players :: "'f externals \<Rightarrow> Game \<Rightarrow> nat \<Rightarrow> nat \<Rightarrow> PlayerHandler list \<Rightarrow> heap \<Rightarrow> error + heap" where
  "place_players X g red_count blue_count [] h = Inr h"
| "place_players X g red_count blue_count (player # rest) h =
     (let red_spawns = red_spawn_points (stadium_store g);
          blue_spawns = blue_spawn_points (stadium_store g);
          d1 = Disc_copy X (h (disc player)) (player_physics (stadium_store g));
          d2 = d1\<lparr>collision_group := collision_group d1 OR
                  (if team player = RED then CollisionFlag_RED X else CollisionFlag_BLUE X)\<rparr>;
          d3 = d2\<lparr>player_id := Some (ident player)\<rparr>;
          d4 = set_color X player d3
      in if team player = RED then
           (if length red_spawns > 0 then
              (let index_red = min red_count (length red_spawns)
               in if index_red < length red_spawns then
                    place_players X g (red_count + 1) blue_count rest
                      (h(disc player := d4\<lparr>position := Some (red_spawns ! index_red)\<rparr>))
                  else Inl IndexError)
            else
              place_players X g (red_count + 1) blue_count rest
                (h(disc player := d4\<lparr>position := Some
                    (- spawn_distance (stadium_game g),
                     if red_count mod 2 = 1 then of_int (- 55 * int (drop_bit 1 (red_count + 1)))
                     else of_int (55 * int (drop_bit 1 (red_count + 1))))\<rparr>)))
         else if team player = BLUE then
           (if length blue_spawns > 0 then
              (let index_blue = min blue_count (length blue_spawns)
               in if index_blue < length blue_spawns then
                    place_players X g red_count (blue_count + 1) rest
                      (h(disc player := d4\<lparr>position := Some (blue_spawns ! index_blue)\<rparr>))
                  else Inl IndexError)
            else
              place_players X g red_count (blue_count + 1) rest
                (h(disc player := d4\<lparr>position := Some
                    (spawn_distance (stadium_game g),
                     if blue_count mod 2 = 1 then of_int (- 55 * int (drop_bit 1 (blue_count + 1)))
                     else of_int (55 * int (drop_bit 1 (blue_count + 1))))\<rparr>)))
         else place_players X g red_count blue_count rest (h(disc player := d4)))"

text \<open>\<^verbatim>\<open>discs if kickoff_reset == "full" else [discs[0]]\<close>; the subscript raises on an empty
  list.\<close>

definition reset_selection :: "string \<Rightarrow> 'd list \<Rightarrow> error + 'd list" where
  "reset_selection mode ds =
     (if mode = ''full'' then Inr ds else (case ds of [] \<Rightarrow> Inl IndexError | d # _ \<Rightarrow> Inr [d]))"

text \<open>\<^verbatim>\<open>Game.reset_discs_positions\<close>.\<close>

definition reset_discs_positions :: "'f externals \<Rightarrow> Game \<Rightarrow> error + Game" where
  "reset_discs_positions X g =
     (case reset_selection (kickoff_reset (stadium_game g)) (discs (stadium_game g)) of
        Inl e \<Rightarrow> Inl e
      | Inr discs_game \<Rightarrow>
          (case reset_selection (kickoff_reset (stadium_store g)) (discs (stadium_store g)) of
             Inl e \<Rightarrow> Inl e
           | Inr discs_store \<Rightarrow>
               (case place_players X g 0 0 (players g)
                       (copy_discs X (zip discs_game discs_store) (disc_heap g)) of
                  Inl e \<Rightarrow> Inl e
                | Inr h \<Rightarrow> Inr (g\<lparr>disc_heap := h\<rparr>))))"

subsection \<open>The rest of the state machine\<close>

text \<open>\<^verbatim>\<open>_handle_goal_state\<close>.\<close>

definition handle_goal_state :: "'f externals \<Rightarrow> Game \<Rightarrow> error + Game" where
  "handle_goal_state X g =
     (let g1 = g\<lparr>score := (score g)\<lparr>animation_timeout := animation_timeout (score g) - 1\<rparr>\<rparr>
      in if \<not> is_animation X (score g1) then
           (if is_game_over X (score g1) then
              Inr (g1\<lparr>state := END, score := end_animation X (score g1)\<rparr>)
            else
              (case reset_discs_positions X g1 of
                 Inl e \<Rightarrow> Inl e
               | Inr g2 \<Rightarrow> Inr (g2\<lparr>state := KICKOFF\<rparr>)))
         else Inr g1)"

text \<open>\<^verbatim>\<open>_handle_end_state\<close>: the returned flag and the new game.\<close>

definition handle_end_state :: "'f externals \<Rightarrow> Game \<Rightarrow> bool \<times> Game" where
  "handle_end_state X g =
     (let g1 = g\<lparr>score := (score g)\<lparr>animation_timeout := animation_timeout (score g) - 1\<rparr>\<rparr>
      in (\<not> is_animation X (score g1), g1))"

text \<open>\<^verbatim>\<open>handle_game_state\<close>: the returned flag and the new game.\<close>

definition handle_game_state :: "'f externals \<Rightarrow> Game \<Rightarrow> Disc list \<Rightarrow> error + (bool \<times> Game)" where
  "handle_game_state X g previous_discs_position =
     (let g1 = g\<lparr>score := score_step X (state g) (score g)\<rparr>
      in case state g1 of
           KICKOFF \<Rightarrow>
             (case handle_kickoff_state X g1 of Inl e \<Rightarrow> Inl e | Inr g2 \<Rightarrow> Inr (False, g2))
         | PLAYING \<Rightarrow>
             (case handle_playing_state X g1 previous_discs_position of
                Inl e \<Rightarrow> Inl e
              | Inr g2 \<Rightarrow> Inr (False, g2))
         | GOAL \<Rightarrow>
             (case handle_goal_state X g1 of Inl e \<Rightarrow> Inl e | Inr g2 \<Rightarrow> Inr (False, g2))
         | END \<Rightarrow> Inr (handle_end_state X g1))"

subsection \<open>One tick\<close>

text \<open>
  The per-tick actions: a two-dimensional integer array (its rows), or a list or tuple of
  actions. \<^verbatim>\<open>np.array(actions_list, dtype=np.int_)\<close> raises on rows of different lengths
  and on an integer outside the 64-bit range.
\<close>

datatype ActionsType = ActionsArray "int list list" | ActionsSeq "ActionType list"

definition np_array :: "int list list \<Rightarrow> error + int list list" where
  "np_array rows =
     (if list_ex (\<lambda>r. length r \<noteq> length (hd rows)) rows then Inl ValueError
      else if list_ex (list_ex (\<lambda>x. x < - (2 ^ 63) \<or> 2 ^ 63 \<le> x)) rows then Inl OverflowError
      else Inr rows)"

text \<open>The comprehension \<^verbatim>\<open>[normalize_action(action) for action in actions]\<close> of
  \<^verbatim>\<open>step\<close> is \<open>comprehension normalize_action\<close>.

  The loop \<^verbatim>\<open>for action, player in zip(actions, self.players)\<close>: the players and the
  disc store after it. A row of the integer array is an array of integers. A player without
  a row is not touched.\<close>

fun apply_actions ::
  "'f externals \<Rightarrow> Game \<Rightarrow> int list list \<Rightarrow> PlayerHandler list \<Rightarrow> heap
     \<Rightarrow> error + (PlayerHandler list \<times> heap)" where
  "apply_actions X g (row # rows) (player # rest) h =
     (case make_player_action X (g\<lparr>disc_heap := h\<rparr>) player (ActArray (map CInt row)) of
        Inl e \<Rightarrow> Inl e
      | Inr (player', h') \<Rightarrow>
          (case apply_actions X g rows rest h' of
             Inl e \<Rightarrow> Inl e
           | Inr (rest', h'') \<Rightarrow> Inr (player' # rest', h'')))"
| "apply_actions X g [] ps h = Inr (ps, h)"
| "apply_actions X g rows [] h = Inr ([], h)"

text \<open>\<^verbatim>\<open>Game.step\<close>: the returned flag and the new game.\<close>

definition step :: "'f externals \<Rightarrow> Game \<Rightarrow> ActionsType \<Rightarrow> error + (bool \<times> Game)" where
  "step X g acts =
     (case (case acts of
              ActionsSeq as \<Rightarrow>
                (case comprehension normalize_action as of
                   Inl e \<Rightarrow> Inl e
                 | Inr actions_list \<Rightarrow> np_array actions_list)
            | ActionsArray rows \<Rightarrow> Inr rows) of
        Inl e \<Rightarrow> Inl e
      | Inr rows \<Rightarrow>
          (case apply_actions X g rows (players g) (disc_heap g) of
             Inl e \<Rightarrow> Inl e
           | Inr (ps, h) \<Rightarrow>
               (let g1 = g\<lparr>players := ps, disc_heap := h\<rparr>;
                    previous_discs_position = current_disc_position X g1;
                    g2 = g1\<lparr>disc_heap := update_discs X (stadium_game g1) (players g1) (disc_heap g1)\<rparr>;
                    g3 = g2\<lparr>disc_heap := resolve_collisions X (stadium_game g2) (disc_heap g2)\<rparr>
                in case handle_game_state X g3 previous_discs_position of
                     Inl e \<Rightarrow> Inl e
                   | Inr (finished, g4) \<Rightarrow>
                       (case recorder g4 of
                          None \<Rightarrow> Inr (finished, g4)
                        | Some r \<Rightarrow>
                            (case recorder_step X rows r of
                               Inl e \<Rightarrow> Inl e
                             | Inr r' \<Rightarrow> Inr (finished, g4\<lparr>recorder := Some r'\<rparr>))))))"


section \<open>The ball of a stadium\<close>






section \<open>A sample of the operations that are not among the sources\<close>

text \<open>
  The closed examples below evaluate the model. They need one value for each parameter
  of the record of external operations; \<open>sample_externals\<close> is such a value. Its flags and
  input bits are numbered as in the HaxBall stadium format, its score follows the
  specification (section 4.6), its integration step follows section 4.2 of the
  specification, and it has no contacts and no player movement. Its floating-point
  operations are the exact ones on the reals: the coordinates of the examples are integers
  of three digits, on which (and on whose differences and products) the 64-bit operations
  are exact.
\<close>

text \<open>Modelled from the spec: the enumeration \<^verbatim>\<open>CollisionFlag\<close> is not among the sources.
  The glossary of the specification lists the flags \<^verbatim>\<open>ball, red, blue, redKO, blueKO, wall,
  all, kick, score\<close> of the bit masks; each is a bit of its own, \<^verbatim>\<open>all\<close> being the six bits
  before \<^verbatim>\<open>kick\<close>, and \<^verbatim>\<open>from_list\<close> is the union of the flags that a list names.\<close>

fun sample_flag :: "string \<Rightarrow> int" where
  "sample_flag s =
     (if s = ''ball'' then 1 else if s = ''red'' then 2 else if s = ''blue'' then 4
      else if s = ''redKO'' then 8 else if s = ''blueKO'' then 16 else if s = ''wall'' then 32
      else if s = ''all'' then 63 else if s = ''kick'' then 64 else if s = ''score'' then 128
      else 0)"

definition sample_from_list :: "string list \<Rightarrow> int" where
  "sample_from_list names = fold (\<lambda>s acc. acc OR sample_flag s) names 0"

fun sample_team_value :: "TeamID \<Rightarrow> int" where
  "sample_team_value SPECTATOR = 0"
| "sample_team_value RED = 1"
| "sample_team_value BLUE = 2"

text \<open>Modelled from the spec: \<^verbatim>\<open>Disc.copy\<close> is not among the sources; the target is
  restored from the template, that is, it takes the physical fields of the source and
  keeps its own back-reference to a player.\<close>

definition sample_copy :: "Disc \<Rightarrow> Disc \<Rightarrow> Disc" where
  "sample_copy target source = source\<lparr>player_id := player_id target\<rparr>"

definition sample_set_color :: "PlayerHandler \<Rightarrow> Disc \<Rightarrow> Disc" where
  "sample_set_color player d =
     d\<lparr>color := (if team player = RED then (229, 110, 86, 255) else (86, 137, 229, 255))\<rparr>"

definition sample_resolve_movement ::
  "ref Stadium \<Rightarrow> GameScore \<Rightarrow> PlayerHandler \<Rightarrow> heap \<Rightarrow> PlayerHandler \<times> heap" where
  "sample_resolve_movement st sc player h = (player, h)"

text \<open>Modelled from the spec: the integration of section 4.2 (\<^verbatim>\<open>update_discs\<close> is not among
  the sources). Every movable disc of the stadium gains its gravity, moves by its velocity,
  and is damped.\<close>

definition integrate :: "Disc \<Rightarrow> Disc" where
  "integrate d =
     (if inv_mass d > 0 then
        (let v = (fst (velocity d) + fst (gravity d), snd (velocity d) + snd (gravity d))
         in d\<lparr>position := map_option (\<lambda>p. (fst p + fst v, snd p + snd v)) (position d),
              velocity := (fst v * damping d, snd v * damping d)\<rparr>)
      else d)"

definition sample_update_discs :: "ref Stadium \<Rightarrow> PlayerHandler list \<Rightarrow> heap \<Rightarrow> heap" where
  "sample_update_discs st ps h = fold (\<lambda>r h'. h'(r := integrate (h' r))) (discs st) h"

definition sample_resolve_collisions :: "ref Stadium \<Rightarrow> heap \<Rightarrow> heap" where
  "sample_resolve_collisions st h = h"

text \<open>Modelled from the spec: the score and clock of section 4.6 (\<^verbatim>\<open>GameScore\<close> is not
  among the sources). The time limit is in minutes of 60 seconds of 60 ticks. The team
  that the goal detector returns is logged as the one that conceded, so the other team
  gains the goal.\<close>

definition sample_score_step :: "GameState \<Rightarrow> GameScore \<Rightarrow> GameScore" where
  "sample_score_step st sc = (if st = KICKOFF \<or> st = PLAYING then sc\<lparr>ticks := ticks sc + 1\<rparr> else sc)"

definition sample_update_score :: "TeamID \<Rightarrow> GameScore \<Rightarrow> GameScore" where
  "sample_update_score t sc =
     (if t = RED then sc\<lparr>blue := blue sc + 1, animation_timeout := 150\<rparr>
      else sc\<lparr>red := red sc + 1, animation_timeout := 150\<rparr>)"

definition sample_is_game_over :: "GameScore \<Rightarrow> bool" where
  "sample_is_game_over sc =
     ((score_limit sc > 0 \<and> max (red sc) (blue sc) \<ge> score_limit sc)
      \<or> (time_limit sc > 0 \<and> ticks sc \<ge> time_limit sc * 60 * 60 \<and> red sc \<noteq> blue sc))"

definition sample_is_animation :: "GameScore \<Rightarrow> bool" where
  "sample_is_animation sc = (animation_timeout sc > 0)"

definition sample_end_animation :: "GameScore \<Rightarrow> GameScore" where
  "sample_end_animation sc = sc\<lparr>animation_timeout := 150\<rparr>"

definition sample_norm_positive :: "vec \<Rightarrow> bool" where
  "sample_norm_positive v = (sqrt ((fst v)\<^sup>2 + (snd v)\<^sup>2) > 0)"

definition sample_le_zero :: "real \<Rightarrow> bool" where
  "sample_le_zero x = (x \<le> 0)"

definition sample_externals :: "real externals" where
  "sample_externals =
     \<lparr>CollisionFlag_BALL = 1, CollisionFlag_RED = 2, CollisionFlag_BLUE = 4,
      CollisionFlag_REDKO = 8, CollisionFlag_BLUEKO = 16, CollisionFlag_KICK = 64,
      CollisionFlag_SCORE = 128, CollisionFlag_PLAYER_COLLISION = 39,
      CollisionFlag_from_list = sample_from_list, TeamID_value = sample_team_value,
      INPUT_UP = 1, INPUT_DOWN = 2, INPUT_LEFT = 4, INPUT_RIGHT = 8, INPUT_SHOOT = 16,
      Disc_copy = sample_copy, set_color = sample_set_color,
      resolve_movement = sample_resolve_movement, update_discs = sample_update_discs,
      resolve_collisions = sample_resolve_collisions, score_step = sample_score_step,
      update_score = sample_update_score, is_game_over = sample_is_game_over,
      is_animation = sample_is_animation, end_animation = sample_end_animation,
      float_of = id, float_sub = minus, float_mul = times, float_le_zero = sample_le_zero,
      norm_positive = sample_norm_positive\<rparr>"

subsection \<open>A sample game\<close>

text \<open>A ball (object 0) and two players, red (object 1) and blue (object 2), on a pitch
  with a goal for each team and no spawn points; object 3 and beyond are unused.\<close>

definition sample_ball :: Disc where
  "sample_ball =
     \<lparr>position = Some (0, 0), velocity = (0, 0), gravity = (0, 0), radius = 10, inv_mass = 1,
      damping = 99 / 100, b_coef = 1 / 2, color = (255, 255, 255, 255),
      collision_group = 193, collision_mask = 63, player_id = None\<rparr>"

definition sample_player_physics :: Disc where
  "sample_player_physics =
     \<lparr>position = None, velocity = (0, 0), gravity = (0, 0), radius = 15, inv_mass = 1 / 2,
      damping = 96 / 100, b_coef = 1 / 2, color = (255, 255, 255, 255),
      collision_group = 0, collision_mask = 39, player_id = None\<rparr>"

definition sample_red :: PlayerHandler where
  "sample_red = \<lparr>name = ''P0'', ident = 0, team = RED, disc = 1, action = [0, 0, 0],
                 kicking = False, kick_cancel = False\<rparr>"

definition sample_blue :: PlayerHandler where
  "sample_blue = \<lparr>name = ''P1'', ident = 1, team = BLUE, disc = 2, action = [0, 0, 0],
                  kicking = False, kick_cancel = False\<rparr>"

definition sample_goals :: "Goal list" where
  "sample_goals =
     [\<lparr>points = ((-370, 64), (-370, -64)), team = Some ''red''\<rparr>,
      \<lparr>points = ((370, 64), (370, -64)), team = Some ''blue''\<rparr>]"

definition sample_heap :: heap where
  "sample_heap =
     (\<lambda>_. sample_player_physics)
       (0 := sample_ball,
        1 := sample_player_physics\<lparr>position := Some (-170, 0), collision_group := 2,
               player_id := Some 0\<rparr>,
        2 := sample_player_physics\<lparr>position := Some (170, 0), collision_group := 4,
               player_id := Some 1\<rparr>)"

definition sample_game :: Game where
  "sample_game =
     \<lparr>score = \<lparr>red = 0, blue = 0, ticks = 0, time_limit = 1, score_limit = 1,
                animation_timeout = 0\<rparr>,
      state = KICKOFF,
      players = [sample_red, sample_blue],
      team_kickoff = RED,
      stadium_store =
        \<lparr>discs = [sample_ball], goals = sample_goals, kickoff_reset = ''partial'',
         spawn_distance = 170, red_spawn_points = [], blue_spawn_points = [],
         player_physics = sample_player_physics\<rparr>,
      stadium_game =
        \<lparr>discs = [0, 1, 2], goals = sample_goals, kickoff_reset = ''partial'',
         spawn_distance = 170, red_spawn_points = [], blue_spawn_points = [],
         player_physics = sample_player_physics\<rparr>,
      disc_heap = sample_heap,
      recorder = None\<rparr>"

subsection \<open>Sample inputs of the examples\<close>

text \<open>A tick of the sample game in which the ball has moved from \<open>(-365, 0)\<close> to
  \<open>(-375, 0)\<close>, across the line of the goal tagged red.\<close>

definition sample_previous :: "Disc list" where
  "sample_previous = [sample_ball\<lparr>position := Some (-365, 0), velocity := (-10, 0)\<rparr>]"

definition sample_playing :: Game where
  "sample_playing =
     sample_game\<lparr>state := PLAYING,
       disc_heap := sample_heap(0 := sample_ball\<lparr>position := Some (-375, 0), velocity := (-99 / 10, 0)\<rparr>)\<rparr>"

text \<open>A disc of a stadium description with the default group \<^verbatim>\<open>all\<close>, and an inline
  ball descriptor.

  Modelled from the spec: \<^verbatim>\<open>DiscRaw.to_disc\<close> is not among the sources. By the resolution
  order of section 4.1 of the specification, a field that is set on the item itself is the
  resolved one; the sample reads the keys \<^verbatim>\<open>pos\<close> and \<^verbatim>\<open>cGroup\<close> of the descriptor so.\<close>

definition sample_disc0 :: Disc where
  "sample_disc0 = sample_ball\<lparr>position := Some (0, 0), radius := 8, collision_group := 63\<rparr>"



text \<open>The goal tick above at the score of one goal each and a limit of two goals, blue
  having the kickoff.\<close>

definition sample_last_goal :: Game where
  "sample_last_goal =
     sample_playing\<lparr>team_kickoff := BLUE,
       score := \<lparr>red = 1, blue = 1, ticks = 2000, time_limit = 0, score_limit = 2,
                 animation_timeout = 0\<rparr>\<rparr>"

text \<open>The same tick at one goal to nil and a limit of two goals.\<close>

definition sample_second_goal :: Game where
  "sample_second_goal =
     sample_playing\<lparr>team_kickoff := BLUE,
       score := \<lparr>red = 1, blue = 0, ticks = 1000, time_limit = 0, score_limit = 2,
                 animation_timeout = 0\<rparr>\<rparr>"

text \<open>Rosters with more red players, a template with one red spawn point, and a game
  after a goal with a second disc (object 5) in the stadium, in both reset modes.\<close>

definition sample_red2 :: PlayerHandler where
  "sample_red2 = \<lparr>name = ''P2'', ident = 2, team = RED, disc = 3, action = [0, 0, 0],
                  kicking = False, kick_cancel = False\<rparr>"

definition sample_red3 :: PlayerHandler where
  "sample_red3 = \<lparr>name = ''P3'', ident = 3, team = RED, disc = 4, action = [0, 0, 0],
                  kicking = False, kick_cancel = False\<rparr>"

definition sample_squad_game :: Game where
  "sample_squad_game = sample_game\<lparr>players := [sample_red, sample_blue, sample_red2, sample_red3]\<rparr>"

definition sample_spawn_game :: Game where
  "sample_spawn_game =
     sample_game\<lparr>stadium_store := (stadium_store sample_game)\<lparr>red_spawn_points := [(-100, 0)]\<rparr>\<rparr>"

definition sample_crowded_game :: Game where
  "sample_crowded_game = sample_spawn_game\<lparr>players := [sample_red, sample_blue, sample_red2]\<rparr>"

definition sample_reset_game :: Game where
  "sample_reset_game =
     sample_game\<lparr>state := GOAL,
       stadium_store := (stadium_store sample_game)\<lparr>discs := [sample_ball, sample_disc0]\<rparr>,
       stadium_game := (stadium_game sample_game)\<lparr>discs := [0, 5, 1, 2]\<rparr>,
       disc_heap := sample_heap
         (0 := sample_ball\<lparr>position := Some (-375, 0), velocity := (-99 / 10, 0)\<rparr>,
          5 := sample_disc0\<lparr>position := Some (120, 60), velocity := (1, 1)\<rparr>)\<rparr>"

definition sample_reset_full :: Game where
  "sample_reset_full =
     sample_reset_game\<lparr>
       stadium_store := (stadium_store sample_reset_game)\<lparr>kickoff_reset := ''full''\<rparr>,
       stadium_game := (stadium_game sample_reset_game)\<lparr>kickoff_reset := ''full''\<rparr>\<rparr>"

text \<open>The sample game with a recorder that has been started for its two players.\<close>

definition sample_recorder :: Recorder where
  "sample_recorder =
     \<lparr>folder_rec = ''recordings'', filename = [], recording = PList [], player_info = [],
      player_action = [], options = []\<rparr>"

definition sample_recorded_game :: Game where
  "sample_recorded_game =
     sample_game\<lparr>recorder :=
       Some (recorder_start sample_externals (players sample_game) RED sample_recorder)\<rparr>"

text \<open>A sample of Python's \<^verbatim>\<open>str\<close> on the first option (an integer in every recording that
  \<^verbatim>\<open>start\<close> began), of \<^verbatim>\<open>os.path.join\<close> on a folder that is not empty, and two ticks of
  actions of two players.\<close>

definition sample_py_str :: "pyval \<Rightarrow> string" where
  "sample_py_str v = (case v of PInt n \<Rightarrow> str_int n | PStr s \<Rightarrow> s | PList xs \<Rightarrow> [])"

definition sample_path_join :: "string \<Rightarrow> string \<Rightarrow> string" where
  "sample_path_join folder file_name = ''./'' @ folder @ ''/'' @ file_name"

definition sample_ticks :: "int list list list" where
  "sample_ticks = [[[1, 0, 1], [0, -1, 0]], [[0, 0, 0], [-1, 1, 0]]]"

text \<open>The sample files: the folder \<^verbatim>\<open>recordings\<close> exists and is empty, and no other
  folder exists; and the files of a directory without any folder. The sample of
  \<^verbatim>\<open>msgpack\<close> packs a value as itself.\<close>

definition sample_files :: "pyval files" where
  "sample_files =
     \<lparr>open_error = (\<lambda>path. if take 13 path = ''./recordings/'' then None
                            else Some FileNotFoundError),
      contents = Map.empty\<rparr>"

definition sample_no_folder :: "pyval files" where
  "sample_no_folder = \<lparr>open_error = (\<lambda>path. Some FileNotFoundError), contents = Map.empty\<rparr>"

definition sample_packb :: "pyval \<Rightarrow> error + pyval" where
  "sample_packb v = Inr v"


text \<open>A tick of the sample game in which a disc without the score flag (object 5, first
  in the list of the stadium) has moved across the goal line to \<open>(-375, 0)\<close>, while the ball
  has moved from \<open>(-365, 0)\<close> to \<open>(-360, 0)\<close>.\<close>

definition sample_decoy :: Game where
  "sample_decoy =
     sample_game\<lparr>state := PLAYING,
       stadium_game := (stadium_game sample_game)\<lparr>discs := [5, 0, 1, 2]\<rparr>,
       disc_heap := sample_heap
         (0 := sample_ball\<lparr>position := Some (-360, 0), velocity := (5, 0)\<rparr>,
          5 := sample_disc0\<lparr>position := Some (-375, 0), velocity := (-10, 0)\<rparr>)\<rparr>"




section \<open>Predicates of the specification\<close>

text \<open>
  The test of the goal detector as the specification words it, on the previous and the
  current position of a disc: with \<open>A = current - p0\<close>, \<open>B = current - p1\<close>,
  \<open>V = current - previous\<close>, \<open>G = p1 - p0\<close> and \<open>Q = previous - p0\<close>, the condition
  \<open>cross(A, V) * cross(B, V) \<le> 0\<close> and \<open>cross(Q, G) * cross(A, G) \<le> 0\<close>, where
  \<open>cross(a, b) = a.x * b.y - a.y * b.x\<close>; every difference and product is that of the
  floating-point arithmetic.
\<close>

definition goal_condition :: "'f externals \<Rightarrow> vec \<Rightarrow> vec \<Rightarrow> Goal \<Rightarrow> bool" where
  "goal_condition X previous current gl =
     (let fl = float_of X; sub = float_sub X; mul = float_mul X;
          p0 = fst (points gl); p1 = snd (points gl);
          Ax = sub (fl (fst current)) (fl (fst p0)); Ay = sub (fl (snd current)) (fl (snd p0));
          Bx = sub (fl (fst current)) (fl (fst p1)); By = sub (fl (snd current)) (fl (snd p1));
          Vx = sub (fl (fst current)) (fl (fst previous));
          Vy = sub (fl (snd current)) (fl (snd previous));
          Gx = sub (fl (fst p1)) (fl (fst p0)); Gy = sub (fl (snd p1)) (fl (snd p0));
          Qx = sub (fl (fst previous)) (fl (fst p0)); Qy = sub (fl (snd previous)) (fl (snd p0))
      in float_le_zero X (mul (sub (mul Ax Vy) (mul Ay Vx)) (sub (mul Bx Vy) (mul By Vx)))
         \<and> float_le_zero X (mul (sub (mul Qx Gy) (mul Qy Gx)) (sub (mul Ax Gy) (mul Ay Gx))))"

text \<open>The same test on two discs that both have a position.\<close>

definition goal_crossed :: "'f externals \<Rightarrow> Disc \<times> Disc \<Rightarrow> Goal \<Rightarrow> bool" where
  "goal_crossed X pc gl =
     (case (position (fst pc), position (snd pc)) of
        (Some previous, Some current) \<Rightarrow> goal_condition X previous current gl
      | _ \<Rightarrow> False)"

text \<open>The team that the specification attributes a goal to: the goal's own tag.\<close>

definition goal_team :: "Goal \<Rightarrow> TeamID" where
  "goal_team gl = (if Goal.team gl = Some ''red'' then RED else BLUE)"


text \<open>An action triple as the specification bounds it: \<open>dx\<close> and \<open>dy\<close> in \<open>{-1, 0, 1}\<close>,
  \<open>kick\<close> in \<open>{0, 1}\<close>.\<close>

definition clamped_action :: "int list \<Rightarrow> bool" where
  "clamped_action a =
     (length a = 3 \<and> a ! 0 \<in> {-1, 0, 1} \<and> a ! 1 \<in> {-1, 0, 1} \<and> a ! 2 \<in> {0, 1})"


text \<open>
  The number of the player at index \<open>j\<close> of the roster among the players of its team,
  counted from 0 in roster order, the number of players of a team, and the \<open>y\<close> coordinate
  of the procedural spawn as the specification words it: \<open>-55 * ((k + 1) >> 1)\<close> for odd
  \<open>k\<close> and \<open>55 * ((k + 1) >> 1)\<close> for even \<open>k\<close>, the shift being the floored division by 2.
\<close>

definition team_index :: "TeamID \<Rightarrow> PlayerHandler list \<Rightarrow> nat \<Rightarrow> nat" where
  "team_index t ps j = length (filter (\<lambda>q. team q = t) (take j ps))"

definition spawn_fallback_y :: "nat \<Rightarrow> real" where
  "spawn_fallback_y k = (if odd k then - 55 * real ((k + 1) div 2) else 55 * real ((k + 1) div 2))"

text \<open>
  Two parts of the body of the loop of \<^verbatim>\<open>reset_discs_positions\<close>, named for the proofs:
  the player's disc after the copy of the template, the team flag, the back-reference and
  the colour; and the choice of the spawn point by \<^verbatim>\<open>min(count, len(spawns))\<close>.
\<close>

definition placed_disc :: "'f externals \<Rightarrow> Game \<Rightarrow> PlayerHandler \<Rightarrow> heap \<Rightarrow> Disc" where
  "placed_disc X g player h =
     (let d1 = Disc_copy X (h (disc player)) (player_physics (stadium_store g));
          d2 = d1\<lparr>collision_group := collision_group d1 OR
                  (if team player = RED then CollisionFlag_RED X else CollisionFlag_BLUE X)\<rparr>;
          d3 = d2\<lparr>player_id := Some (ident player)\<rparr>
      in set_color X player d3)"

definition spawn_choice :: "vec list \<Rightarrow> nat \<Rightarrow> vec \<Rightarrow> error + vec" where
  "spawn_choice spawns count fallback =
     (if length spawns > 0 then
        (if min count (length spawns) < length spawns then Inr (spawns ! min count (length spawns))
         else Inl IndexError)
      else Inr fallback)"

text \<open>Whether \<open>n\<close> further players fit a list of spawn points of which \<open>c\<close> are taken,
  and where the specification places the player at index \<open>j\<close> of the roster.\<close>

definition team_count :: "TeamID \<Rightarrow> PlayerHandler list \<Rightarrow> nat" where
  "team_count t ps = length (filter (\<lambda>q. team q = t) ps)"

definition spawns_fit :: "vec list \<Rightarrow> nat \<Rightarrow> nat \<Rightarrow> bool" where
  "spawns_fit spawns c n = (spawns = [] \<or> n = 0 \<or> c + n \<le> length spawns)"

definition spawn_position :: "Game \<Rightarrow> nat \<Rightarrow> vec" where
  "spawn_position g j =
     (let p = players g ! j; k = team_index (team p) (players g) j
      in if team p = RED then
           (if red_spawn_points (stadium_store g) = [] then
              (- spawn_distance (stadium_game g), spawn_fallback_y k)
            else red_spawn_points (stadium_store g) ! k)
         else
           (if blue_spawn_points (stadium_store g) = [] then
              (spawn_distance (stadium_game g), spawn_fallback_y k)
            else blue_spawn_points (stadium_store g) ! k))"

text \<open>Two parts of \<^verbatim>\<open>step\<close> before the state machine, named for the proofs: the loop
  over the rows and the players on rows of integers, where \<^verbatim>\<open>normalize_action\<close> raises
  nothing; and the copies of the discs with the score flag together with the game after the
  actions and the physics.\<close>

fun paired ::
  "'f externals \<Rightarrow> Game \<Rightarrow> int list list \<Rightarrow> PlayerHandler list \<Rightarrow> heap \<Rightarrow> PlayerHandler list \<times> heap" where
  "paired X g (row # rows) (player # rest) h =
     (let (player', h') = resolve_movement X (stadium_game g) (score g) (player\<lparr>action := row\<rparr>) h;
          (rest', h'') = paired X g rows rest h'
      in (player' # rest', h''))"
| "paired X g [] ps h = (ps, h)"
| "paired X g rows [] h = ([], h)"

definition after_physics :: "'f externals \<Rightarrow> Game \<Rightarrow> int list list \<Rightarrow> Disc list \<times> Game" where
  "after_physics X g rows =
     (let (ps, h) = paired X g rows (players g) (disc_heap g);
          g1 = g\<lparr>players := ps, disc_heap := h\<rparr>;
          previous_discs_position = current_disc_position X g1;
          g2 = g1\<lparr>disc_heap := update_discs X (stadium_game g1) (players g1) (disc_heap g1)\<rparr>;
          g3 = g2\<lparr>disc_heap := resolve_collisions X (stadium_game g2) (disc_heap g2)\<rparr>
      in (previous_discs_position, g3))"

text \<open>The value that \<^verbatim>\<open>stop\<close> puts into \<^verbatim>\<open>recording\<close> and saves, for a recorder with an
  option.\<close>

definition recording_value :: "Recorder \<Rightarrow> pyval" where
  "recording_value r =
     PList [hd (options r),
            PList (map (\<lambda>(info, act). PList [info, act]) (zip (player_info r) (player_action r)))]"

section \<open>Properties\<close>

subsection \<open>Goal detection\<close>

lemma check_goal_goals_find:
  assumes "position p \<noteq> None" "position c \<noteq> None"
  shows "check_goal_goals X p c gs = Inr (map_option goal_team (find (goal_crossed X (p, c)) gs))"
  using assms
  by (induction gs)
     (auto simp: goal_crossed_def goal_condition_def goal_team_def cross_def vsub_def
        float_vec_def Let_def)

lemma find_product_Cons:
  "find P (List.product (x # xs) ys) =
     (case find (\<lambda>y. P (x, y)) ys of Some y \<Rightarrow> Some (x, y) | None \<Rightarrow> find P (List.product xs ys))"
proof -
  have "find P (map (Pair x) ys @ zs) =
          (case find (\<lambda>y. P (x, y)) ys of Some y \<Rightarrow> Some (x, y) | None \<Rightarrow> find P zs)" for zs
    by (induction ys) auto
  then show ?thesis by simp
qed

lemma find_product_None:
  "find P (List.product xs ys) = None \<longleftrightarrow> \<not> (\<exists>x \<in> set xs. \<exists>y \<in> set ys. P (x, y))"
  by (auto simp: find_None_iff)

lemma check_goal_pairs_find:
  assumes "\<forall>(p, c) \<in> set pcs. position p \<noteq> None \<and> position c \<noteq> None"
  shows "check_goal_pairs X pcs gs =
     Inr (case find (\<lambda>(pc, gl). goal_crossed X pc gl) (List.product pcs gs) of
            None \<Rightarrow> SPECTATOR | Some (pc, gl) \<Rightarrow> goal_team gl)"
  using assms
proof (induction pcs)
  case Nil
  then show ?case by simp
next
  case (Cons a pcs)
  obtain p c where a: "a = (p, c)" by (cases a)
  with Cons.prems have pos: "position p \<noteq> None" "position c \<noteq> None" by auto
  from Cons have IH: "check_goal_pairs X pcs gs =
     Inr (case find (\<lambda>(pc, gl). goal_crossed X pc gl) (List.product pcs gs) of
            None \<Rightarrow> SPECTATOR | Some (pc, gl) \<Rightarrow> goal_team gl)" by auto
  show ?case
    unfolding a find_product_Cons
    by (simp add: check_goal_goals_find[OF pos] IH split: option.splits)
qed

lemma goal_team_not_spectator: "goal_team gl \<noteq> SPECTATOR"
  by (simp add: goal_team_def)

lemma current_disc_position_filter:
  "current_disc_position X g =
     filter (\<lambda>d. collision_group d AND CollisionFlag_SCORE X \<noteq> 0)
       (map (disc_heap g) (discs (stadium_game g)))"
  by (simp add: current_disc_position_def filter_map comp_def)

lemma sample_arith:
  "float_of sample_externals = id" "float_sub sample_externals = minus"
  "float_mul sample_externals = times" "float_le_zero sample_externals = sample_le_zero"
  by (simp_all add: sample_externals_def)

lemma sample_playing_current:
  "current_disc_position sample_externals sample_playing =
     [sample_ball\<lparr>position := Some (-375, 0), velocity := (-99 / 10, 0)\<rparr>]"
  by (simp add: current_disc_position_def sample_playing_def sample_game_def sample_externals_def
      sample_heap_def sample_ball_def sample_player_physics_def)

text \<open>
  C1. \<^verbatim>\<open>check_goal\<close> pairs the discs of the live stadium that carry the score flag, in the
  order of the stadium, with their previous copies, and tests every pair against every
  goal, in this order. Provided the discs of the pairs have positions, it returns a team:
  the team is not \<open>SPECTATOR\<close> exactly when some pair and some goal satisfy the condition of
  the specification, it is the tag of the first goal that does (\<open>RED\<close> for a goal tagged red,
  \<open>BLUE\<close> otherwise), and it is \<open>SPECTATOR\<close> when no pair and goal satisfy the condition.
\<close>

theorem check_goal_spec:
  assumes "cur = filter (\<lambda>d. collision_group d AND CollisionFlag_SCORE X \<noteq> 0)
                   (map (disc_heap g) (discs (stadium_game g)))"
    and "\<forall>(p, c) \<in> set (zip previous cur). position p \<noteq> None \<and> position c \<noteq> None"
  shows "\<exists>t. check_goal X g previous = Inr t
     \<and> (t \<noteq> SPECTATOR \<longleftrightarrow>
          (\<exists>pc \<in> set (zip previous cur). \<exists>gl \<in> set (goals (stadium_game g)). goal_crossed X pc gl))
     \<and> t = (case find (\<lambda>(pc, gl). goal_crossed X pc gl)
                  (List.product (zip previous cur) (goals (stadium_game g))) of
              None \<Rightarrow> SPECTATOR
            | Some (pc, gl) \<Rightarrow> goal_team gl)"
proof -
  let ?pcs = "zip previous cur"
  let ?gs = "goals (stadium_game g)"
  let ?f = "find (\<lambda>(pc, gl). goal_crossed X pc gl) (List.product ?pcs ?gs)"
  let ?t = "case ?f of None \<Rightarrow> SPECTATOR | Some (pc, gl) \<Rightarrow> goal_team gl"
  have cur: "current_disc_position X g = cur"
    by (simp add: current_disc_position_filter assms(1))
  have run: "check_goal X g previous = Inr ?t"
    unfolding check_goal_def cur by (rule check_goal_pairs_find[OF assms(2)])
  have "?t \<noteq> SPECTATOR \<longleftrightarrow> ?f \<noteq> None"
    by (auto simp: goal_team_not_spectator split: option.splits)
  also have "\<dots> \<longleftrightarrow> (\<exists>pc \<in> set ?pcs. \<exists>gl \<in> set ?gs. goal_crossed X pc gl)"
    using find_product_None[of "\<lambda>(pc, gl). goal_crossed X pc gl" ?pcs ?gs] by simp
  finally show ?thesis using run by blast
qed

theorem check_goal_spec_witness:
  "check_goal sample_externals sample_playing sample_previous = Inr RED
   \<and> check_goal sample_externals sample_decoy sample_previous = Inr SPECTATOR"
proof
  let ?cur = "[sample_ball\<lparr>position := Some (-375, 0), velocity := (-99 / 10, 0)\<rparr>]"
  have cur: "?cur = filter (\<lambda>d. collision_group d AND CollisionFlag_SCORE sample_externals \<noteq> 0)
                   (map (disc_heap sample_playing) (discs (stadium_game sample_playing)))"
    by (simp add: sample_playing_def sample_game_def sample_externals_def
      sample_heap_def sample_ball_def sample_player_physics_def)
  have pos: "\<forall>(p, c) \<in> set (zip sample_previous ?cur). position p \<noteq> None \<and> position c \<noteq> None"
    by (simp add: sample_previous_def)
  have gs: "goals (stadium_game sample_playing) = sample_goals"
    by (simp add: sample_playing_def sample_game_def)
  from check_goal_spec[OF cur pos]
  show "check_goal sample_externals sample_playing sample_previous = Inr RED"
    by (simp add: sample_previous_def gs sample_goals_def goal_crossed_def goal_condition_def
        goal_team_def sample_arith sample_le_zero_def)
next
  let ?cur = "[sample_ball\<lparr>position := Some (-360, 0), velocity := (5, 0)\<rparr>]"
  have cur: "?cur = filter (\<lambda>d. collision_group d AND CollisionFlag_SCORE sample_externals \<noteq> 0)
                   (map (disc_heap sample_decoy) (discs (stadium_game sample_decoy)))"
    by (simp add: sample_decoy_def sample_game_def sample_externals_def
      sample_heap_def sample_ball_def sample_player_physics_def sample_disc0_def)
  have pos: "\<forall>(p, c) \<in> set (zip sample_previous ?cur). position p \<noteq> None \<and> position c \<noteq> None"
    by (simp add: sample_previous_def)
  have gs: "goals (stadium_game sample_decoy) = sample_goals"
    by (simp add: sample_decoy_def sample_game_def)
  from check_goal_spec[OF cur pos]
  show "check_goal sample_externals sample_decoy sample_previous = Inr SPECTATOR"
    by (simp add: sample_previous_def gs sample_goals_def goal_crossed_def goal_condition_def
        goal_team_def sample_arith sample_le_zero_def)
qed

subsection \<open>Actions\<close>

lemma comprehension_map:
  "\<forall>x \<in> set xs. f x = Inr (v x) \<Longrightarrow> comprehension f xs = Inr (map v xs)"
  by (induction xs) simp_all

lemma comprehension_first_error:
  "\<forall>x \<in> set pre. f x = Inr (v x) \<Longrightarrow> f y = Inl e \<Longrightarrow>
     comprehension f (pre @ y # post) = Inl e"
  by (induction pre) simp_all

lemma zero_if_none_value:
  "c = CNone \<or> (\<exists>n. c = CInt n) \<Longrightarrow>
     zero_if_none c = Inr (case c of CInt n \<Rightarrow> n | _ \<Rightarrow> 0)"
  by (cases c) (simp_all add: zero_if_none_def)

lemma int_builtin_value:
  "\<exists>n. c = CInt n \<Longrightarrow> int_builtin c = Inr (case c of CInt n \<Rightarrow> n | _ \<Rightarrow> 0)"
  by (cases c) simp_all

lemma normalize_action_list:
  assumes "\<forall>c \<in> set pre. c = CNone \<or> (\<exists>n. c = CInt n)"
  shows "normalize_action (ActSeq pre) = Inr (map (\<lambda>c. case c of CInt n \<Rightarrow> n | _ \<Rightarrow> 0) pre)"
    and "normalize_action (ActSeq (pre @ CRaise e # post)) =
           (if e = TypeError \<or> e = ValueError then Inr [0, 0, 0] else Inl e)"
proof -
  have ok: "\<forall>c \<in> set pre. zero_if_none c = Inr (case c of CInt n \<Rightarrow> n | _ \<Rightarrow> 0)"
    using assms zero_if_none_value by blast
  show "normalize_action (ActSeq pre) = Inr (map (\<lambda>c. case c of CInt n \<Rightarrow> n | _ \<Rightarrow> 0) pre)"
    by (simp add: comprehension_map[OF ok] except_type_value_def)
  have "zero_if_none (CRaise e) = Inl e" by (simp add: zero_if_none_def)
  from comprehension_first_error[OF ok this]
  show "normalize_action (ActSeq (pre @ CRaise e # post)) =
           (if e = TypeError \<or> e = ValueError then Inr [0, 0, 0] else Inl e)"
    by (simp add: except_type_value_def DEFAULT_ACTION_def)
qed

lemma normalize_action_array:
  assumes "\<forall>c \<in> set pre. \<exists>n. c = CInt n"
  shows "normalize_action (ActArray pre) = Inr (map (\<lambda>c. case c of CInt n \<Rightarrow> n | _ \<Rightarrow> 0) pre)"
    and "normalize_action (ActArray (pre @ CNone # post)) = Inr [0, 0, 0]"
    and "normalize_action (ActArray (pre @ CRaise e # post)) =
           (if e = TypeError \<or> e = ValueError then Inr [0, 0, 0] else Inl e)"
proof -
  have ok: "\<forall>c \<in> set pre. int_builtin c = Inr (case c of CInt n \<Rightarrow> n | _ \<Rightarrow> 0)"
    using assms int_builtin_value by blast
  show "normalize_action (ActArray pre) = Inr (map (\<lambda>c. case c of CInt n \<Rightarrow> n | _ \<Rightarrow> 0) pre)"
    by (simp add: comprehension_map[OF ok] except_type_value_def)
  show "normalize_action (ActArray (pre @ CNone # post)) = Inr [0, 0, 0]"
    by (simp add: comprehension_first_error[OF ok, of CNone TypeError] except_type_value_def
        DEFAULT_ACTION_def)
  have "int_builtin (CRaise e) = Inl e" by simp
  from comprehension_first_error[OF ok this]
  show "normalize_action (ActArray (pre @ CRaise e # post)) =
           (if e = TypeError \<or> e = ValueError then Inr [0, 0, 0] else Inl e)"
    by (simp add: except_type_value_def DEFAULT_ACTION_def)
qed

lemma normalize_action_int_row:
  "normalize_action (ActArray (map CInt row)) = Inr row"
proof -
  have "normalize_action (ActArray (map CInt row)) =
          Inr (map (\<lambda>c. case c of CInt n \<Rightarrow> n | _ \<Rightarrow> 0) (map CInt row))"
    by (rule normalize_action_array(1)) auto
  then show ?thesis by (simp add: comp_def)
qed

text \<open>
  C3 as the specification states it fails: an integer outside the range is stored as it is.
  The action \<open>(5, None, 1)\<close> is stored as \<open>[5, 0, 1]\<close>.
\<close>

theorem make_player_action_not_clamped:
  "make_player_action sample_externals sample_game sample_red (ActSeq [CInt 5, CNone, CInt 1])
     = Inr (sample_red\<lparr>action := [5, 0, 1]\<rparr>, sample_heap)
   \<and> \<not> clamped_action [5, 0, 1]"
  by (simp add: make_player_action_def sample_externals_def sample_resolve_movement_def
      clamped_action_def except_type_value_def sample_game_def zero_if_none_def)

text \<open>
  C3, amended. \<^verbatim>\<open>make_player_action\<close> stores the normalized action as the action of the
  player and then resolves the movement of the player; an exception of the normalization
  leaves it before anything is stored. Nothing is clamped and no component is added. The
  normalized action is \<open>[0, 0, 0]\<close> for \<^verbatim>\<open>None\<close> and for a value that is no array, list or
  tuple. For a list or tuple whose cells are \<^verbatim>\<open>None\<close> or values that \<^verbatim>\<open>int\<close> converts, it
  has the same length, 0 for every \<^verbatim>\<open>None\<close> cell and the converted value for every other
  cell, an integer being kept as it is. When such cells are followed by a cell on which
  \<^verbatim>\<open>int\<close> raises, it is \<open>[0, 0, 0]\<close> if the exception is \<^verbatim>\<open>TypeError\<close> or \<^verbatim>\<open>ValueError\<close>,
  and otherwise the normalization raises this exception (\<^verbatim>\<open>OverflowError\<close> on an infinite
  float). For an array the same holds, except that a \<^verbatim>\<open>None\<close> cell is not replaced by 0
  there: \<^verbatim>\<open>int\<close> raises \<^verbatim>\<open>TypeError\<close> on it, which gives \<open>[0, 0, 0]\<close>.
\<close>

theorem make_player_action_normalizes:
  "(normalize_action act = Inr a \<longrightarrow>
      make_player_action X g player act =
        Inr (resolve_movement X (stadium_game g) (score g) (player\<lparr>action := a\<rparr>) (disc_heap g)))
   \<and> (normalize_action act = Inl e \<longrightarrow> make_player_action X g player act = Inl e)
   \<and> normalize_action ActNone = Inr [0, 0, 0]
   \<and> normalize_action ActOther = Inr [0, 0, 0]
   \<and> ((\<forall>c \<in> set cs. c = CNone \<or> (\<exists>n. c = CInt n)) \<longrightarrow>
        normalize_action (ActSeq cs) = Inr (map (\<lambda>c. case c of CInt n \<Rightarrow> n | _ \<Rightarrow> 0) cs)
        \<and> normalize_action (ActSeq (cs @ CRaise x # post)) =
            (if x = TypeError \<or> x = ValueError then Inr [0, 0, 0] else Inl x))
   \<and> ((\<forall>c \<in> set cs. \<exists>n. c = CInt n) \<longrightarrow>
        normalize_action (ActArray cs) = Inr (map (\<lambda>c. case c of CInt n \<Rightarrow> n | _ \<Rightarrow> 0) cs)
        \<and> normalize_action (ActArray (cs @ CNone # post)) = Inr [0, 0, 0]
        \<and> normalize_action (ActArray (cs @ CRaise x # post)) =
            (if x = TypeError \<or> x = ValueError then Inr [0, 0, 0] else Inl x))"
proof (intro conjI impI)
  assume "normalize_action act = Inr a"
  then show "make_player_action X g player act =
        Inr (resolve_movement X (stadium_game g) (score g) (player\<lparr>action := a\<rparr>) (disc_heap g))"
    by (simp add: make_player_action_def)
next
  assume "normalize_action act = Inl e"
  then show "make_player_action X g player act = Inl e"
    by (simp add: make_player_action_def)
next
  show "normalize_action ActNone = Inr [0, 0, 0]" by (simp add: DEFAULT_ACTION_def)
  show "normalize_action ActOther = Inr [0, 0, 0]"
    by (simp add: DEFAULT_ACTION_def except_type_value_def)
next
  assume a: "\<forall>c \<in> set cs. c = CNone \<or> (\<exists>n. c = CInt n)"
  show "normalize_action (ActSeq cs) = Inr (map (\<lambda>c. case c of CInt n \<Rightarrow> n | _ \<Rightarrow> 0) cs)"
    by (rule normalize_action_list(1)[OF a])
  show "normalize_action (ActSeq (cs @ CRaise x # post)) =
            (if x = TypeError \<or> x = ValueError then Inr [0, 0, 0] else Inl x)"
    by (rule normalize_action_list(2)[OF a])
next
  assume a: "\<forall>c \<in> set cs. \<exists>n. c = CInt n"
  show "normalize_action (ActArray cs) = Inr (map (\<lambda>c. case c of CInt n \<Rightarrow> n | _ \<Rightarrow> 0) cs)"
    by (rule normalize_action_array(1)[OF a])
  show "normalize_action (ActArray (cs @ CNone # post)) = Inr [0, 0, 0]"
    by (rule normalize_action_array(2)[OF a])
  show "normalize_action (ActArray (cs @ CRaise x # post)) =
            (if x = TypeError \<or> x = ValueError then Inr [0, 0, 0] else Inl x)"
    by (rule normalize_action_array(3)[OF a])
qed

theorem make_player_action_normalizes_witness:
  "normalize_action (ActSeq [CInt 5, CNone, CInt 1]) = Inr [5, 0, 1]
   \<and> make_player_action sample_externals sample_game sample_red (ActSeq [CInt 5, CNone, CInt 1])
       = Inr (sample_red\<lparr>action := [5, 0, 1]\<rparr>, sample_heap)
   \<and> normalize_action (ActSeq [CInt 5, CNone, CRaise ValueError, CRaise OverflowError])
       = Inr [0, 0, 0]
   \<and> normalize_action (ActSeq [CInt 5, CNone, CRaise OverflowError, CRaise ValueError])
       = Inl OverflowError
   \<and> make_player_action sample_externals sample_game sample_red
       (ActSeq [CInt 5, CNone, CRaise OverflowError, CRaise ValueError]) = Inl OverflowError
   \<and> normalize_action (ActArray [CInt 5, CInt 7]) = Inr [5, 7]
   \<and> normalize_action (ActArray [CInt 5, CNone, CInt 7]) = Inr [0, 0, 0]"
proof -
  have cells: "\<forall>c \<in> set [CInt 5, CNone]. c = CNone \<or> (\<exists>n. c = CInt n)"
    "\<forall>c \<in> set [CInt 5, CNone, CInt 1]. c = CNone \<or> (\<exists>n. c = CInt n)"
    "\<forall>c \<in> set [CInt 5, CInt 7]. \<exists>n. c = CInt n" "\<forall>c \<in> set [CInt 5]. \<exists>n. c = CInt n"
    by simp_all
  note A = make_player_action_normalizes[of "ActSeq [CInt 5, CNone, CInt 1]" "[5, 0, 1]"
      sample_externals sample_game sample_red OverflowError "[CInt 5, CNone, CInt 1]"
      OverflowError "[]"]
  note B = make_player_action_normalizes[of ActNone "[]" sample_externals sample_game sample_red
      OverflowError "[CInt 5, CNone]" ValueError "[CRaise OverflowError]"]
  note C = make_player_action_normalizes[of
      "ActSeq [CInt 5, CNone, CRaise OverflowError, CRaise ValueError]" "[]"
      sample_externals sample_game sample_red OverflowError "[CInt 5, CNone]"
      OverflowError "[CRaise ValueError]"]
  note D = make_player_action_normalizes[of ActNone "[]" sample_externals sample_game sample_red
      OverflowError "[CInt 5, CInt 7]" OverflowError "[]"]
  note E = make_player_action_normalizes[of ActNone "[]" sample_externals sample_game sample_red
      OverflowError "[CInt 5]" OverflowError "[CInt 7]"]
  from A cells have 1: "normalize_action (ActSeq [CInt 5, CNone, CInt 1]) = Inr [5, 0, 1]"
    by simp
  with A have 2: "make_player_action sample_externals sample_game sample_red
       (ActSeq [CInt 5, CNone, CInt 1]) = Inr (sample_red\<lparr>action := [5, 0, 1]\<rparr>, sample_heap)"
    by (simp add: sample_externals_def sample_resolve_movement_def sample_game_def)
  from B cells have 3:
    "normalize_action (ActSeq [CInt 5, CNone, CRaise ValueError, CRaise OverflowError])
       = Inr [0, 0, 0]"
    by simp
  from C cells have 4:
    "normalize_action (ActSeq [CInt 5, CNone, CRaise OverflowError, CRaise ValueError])
       = Inl OverflowError"
    by simp
  with C have 5: "make_player_action sample_externals sample_game sample_red
       (ActSeq [CInt 5, CNone, CRaise OverflowError, CRaise ValueError]) = Inl OverflowError"
    by simp
  from D cells have 6: "normalize_action (ActArray [CInt 5, CInt 7]) = Inr [5, 7]"
    by simp
  from E cells have 7: "normalize_action (ActArray [CInt 5, CNone, CInt 7]) = Inr [0, 0, 0]"
    by simp
  from 1 2 3 4 5 6 7 show ?thesis by simp
qed

subsection \<open>The ball of a stadium\<close>







subsection \<open>The state machine\<close>


lemma playing_players_eq:
  "playing_players X ps h r =
     (if r \<in> disc ` set ps \<and> position (h r) \<noteq> None then
        (h r)\<lparr>collision_mask := CollisionFlag_PLAYER_COLLISION X\<rparr>
      else h r)"
  by (induction ps arbitrary: h) (auto simp: Let_def)

lemma check_goal_goals_positions:
  "position p = position p' \<Longrightarrow> position c = position c' \<Longrightarrow>
     check_goal_goals X p c gs = check_goal_goals X p' c' gs"
  by (induction gs) (auto simp: Let_def split: option.splits)

lemma check_goal_pairs_positions:
  "length cs = length cs' \<Longrightarrow> \<forall>i < length cs. position (cs ! i) = position (cs' ! i) \<Longrightarrow>
     check_goal_pairs X (zip ps cs) gs = check_goal_pairs X (zip ps cs') gs"
proof (induction cs cs' arbitrary: ps rule: list_induct2)
  case Nil
  then show ?case by simp
next
  case (Cons c cs c' cs')
  show ?case
  proof (cases ps)
    case Nil
    then show ?thesis by simp
  next
    case (Cons p ps')
    have hd: "position c = position c'" using Cons.prems by auto
    have tl: "\<forall>i < length cs. position (cs ! i) = position (cs' ! i)"
      using Cons.prems by auto
    have "check_goal_goals X p c gs = check_goal_goals X p c' gs"
      by (rule check_goal_goals_positions[OF refl hd])
    then show ?thesis using Cons.IH[OF tl, of ps'] Cons by (simp split: sum.splits option.splits)
  qed
qed

lemma check_goal_playing_players_heap:
  "check_goal X (g\<lparr>disc_heap := playing_players X ps h\<rparr>) previous
     = check_goal X (g\<lparr>disc_heap := h\<rparr>) previous"
proof -
  have grp: "collision_group (playing_players X ps h r) = collision_group (h r)" for r
    by (simp add: playing_players_eq)
  have pos: "position (playing_players X ps h r) = position (h r)" for r
    by (simp add: playing_players_eq)
  show ?thesis
    unfolding check_goal_def current_disc_position_def
    by (simp add: grp) (rule check_goal_pairs_positions, simp_all add: pos)
qed

lemma check_goal_playing_players:
  "check_goal X (g\<lparr>disc_heap := playing_players X ps (disc_heap g)\<rparr>) previous
     = check_goal X g previous"
  by (simp add: check_goal_playing_players_heap)





lemma sample_playing_check_goal:
  "check_goal sample_externals sample_playing sample_previous = Inr RED"
proof -
  have gs: "goals (stadium_game sample_playing) = sample_goals"
    by (simp add: sample_playing_def sample_game_def)
  show ?thesis
    unfolding check_goal_def sample_playing_current gs
    by (simp add: sample_previous_def sample_goals_def cross_def vsub_def float_vec_def
        sample_arith sample_le_zero_def)
qed

lemma check_goal_score_kickoff:
  "check_goal X (g\<lparr>team_kickoff := k, score := s\<rparr>) previous = check_goal X g previous"
  by (simp add: check_goal_def current_disc_position_def)

lemma handle_playing_state_goal:
  assumes "check_goal X g previous = Inr t" "t \<noteq> SPECTATOR"
  shows "\<exists>g'. handle_playing_state X g previous = Inr g' \<and> state g' = GOAL
      \<and> score g' = update_score X t (score g)
      \<and> (\<not> is_game_over X (score g') \<longrightarrow> team_kickoff g' = (if t = BLUE then BLUE else RED))
      \<and> (is_game_over X (score g') \<longrightarrow> team_kickoff g' = team_kickoff g)"
  using assms
  by (simp add: handle_playing_state_def check_goal_playing_players Let_def)


text \<open>
  C6, amended. When the goal detector returns a team in the state \<open>PLAYING\<close>, the handler
  succeeds, the state becomes \<open>GOAL\<close> and the score is updated with the team. If the game
  is not over after the update, \<^verbatim>\<open>team_kickoff\<close> is \<open>BLUE\<close> when the team is \<open>BLUE\<close> and
  \<open>RED\<close> otherwise; if the game is over, \<^verbatim>\<open>team_kickoff\<close> keeps its value.
\<close>

theorem goal_team_kickoff:
  assumes "check_goal X g previous = Inr t" "t \<noteq> SPECTATOR"
  shows "\<exists>g'. handle_playing_state X g previous = Inr g' \<and> state g' = GOAL
      \<and> score g' = update_score X t (score g)
      \<and> (\<not> is_game_over X (score g') \<longrightarrow> team_kickoff g' = (if t = BLUE then BLUE else RED))
      \<and> (is_game_over X (score g') \<longrightarrow> team_kickoff g' = team_kickoff g)"
  using assms by (rule handle_playing_state_goal)

lemma sample_goal_games_check_goal:
  "check_goal sample_externals sample_last_goal sample_previous = Inr RED"
  "check_goal sample_externals sample_second_goal sample_previous = Inr RED"
  using sample_playing_check_goal
  by (simp_all add: sample_last_goal_def sample_second_goal_def check_goal_score_kickoff)

theorem goal_team_kickoff_witness:
  "team_kickoff sample_second_goal = BLUE
   \<and> (\<exists>g'. handle_playing_state sample_externals sample_second_goal sample_previous = Inr g'
         \<and> state g' = GOAL \<and> \<not> is_game_over sample_externals (score g')
         \<and> team_kickoff g' = RED)"
proof -
  from goal_team_kickoff[OF sample_goal_games_check_goal(2)]
  obtain g' where run: "handle_playing_state sample_externals sample_second_goal sample_previous = Inr g'"
    and st: "state g' = GOAL"
    and sc: "score g' = update_score sample_externals RED (score sample_second_goal)"
    and tk: "\<not> is_game_over sample_externals (score g') \<longrightarrow> team_kickoff g' = (if RED = BLUE then BLUE else RED)"
    by auto
  have "\<not> is_game_over sample_externals (score g')"
    by (simp add: sc sample_second_goal_def sample_externals_def sample_update_score_def
        sample_is_game_over_def)
  with run st tk show ?thesis
    by (auto simp: sample_second_goal_def)
qed

text \<open>
  C6 as the specification states it fails on the goal that ends the game: at one goal each,
  a limit of two and blue having the kickoff, a goal of the team \<open>RED\<close> leaves
  \<^verbatim>\<open>team_kickoff\<close> at \<open>BLUE\<close>.
\<close>

theorem goal_team_kickoff_final_counterexample:
  "check_goal sample_externals sample_last_goal sample_previous = Inr RED
   \<and> (\<exists>g'. handle_playing_state sample_externals sample_last_goal sample_previous = Inr g'
         \<and> state g' = GOAL \<and> team_kickoff g' = BLUE)"
proof -
  from handle_playing_state_goal[OF sample_goal_games_check_goal(1)]
  obtain g' where run: "handle_playing_state sample_externals sample_last_goal sample_previous = Inr g'"
    and st: "state g' = GOAL"
    and sc: "score g' = update_score sample_externals RED (score sample_last_goal)"
    and tk: "is_game_over sample_externals (score g') \<longrightarrow> team_kickoff g' = team_kickoff sample_last_goal"
    by auto
  have "is_game_over sample_externals (score g')"
    by (simp add: sc sample_last_goal_def sample_externals_def sample_update_score_def
        sample_is_game_over_def)
  with run st tk sample_goal_games_check_goal(1) show ?thesis
    by (auto simp: sample_last_goal_def)
qed

subsection \<open>Resetting the discs\<close>

lemma fallback_code:
  "(if k mod 2 = 1 then of_int (- 55 * int (drop_bit 1 (k + 1)))
    else of_int (55 * int (drop_bit 1 (k + 1)))) = spawn_fallback_y k"
  by (simp add: spawn_fallback_y_def drop_bit_eq_div odd_iff_mod_2_eq_one)

lemma place_players_Cons:
  "place_players X g rc bc (p # rest) h =
     (if team p = RED then
        (case spawn_choice (red_spawn_points (stadium_store g)) rc
                (- spawn_distance (stadium_game g), spawn_fallback_y rc) of
           Inl e \<Rightarrow> Inl e
         | Inr pos \<Rightarrow> place_players X g (rc + 1) bc rest
                        (h(disc p := (placed_disc X g p h)\<lparr>position := Some pos\<rparr>)))
      else if team p = BLUE then
        (case spawn_choice (blue_spawn_points (stadium_store g)) bc
                (spawn_distance (stadium_game g), spawn_fallback_y bc) of
           Inl e \<Rightarrow> Inl e
         | Inr pos \<Rightarrow> place_players X g rc (bc + 1) rest
                        (h(disc p := (placed_disc X g p h)\<lparr>position := Some pos\<rparr>)))
      else place_players X g rc bc rest (h(disc p := placed_disc X g p h)))"
  unfolding place_players.simps Let_def spawn_choice_def placed_disc_def fallback_code
  by simp

lemma spawn_choice_Inr:
  "spawn_choice spawns c fb = Inr pos \<longleftrightarrow>
     (if spawns = [] then pos = fb else c < length spawns \<and> pos = spawns ! c)"
  by (auto simp: spawn_choice_def min_def)

lemma spawn_choice_Inl:
  "spawn_choice spawns c fb = Inl e \<longleftrightarrow> spawns \<noteq> [] \<and> length spawns \<le> c \<and> e = IndexError"
  by (auto simp: spawn_choice_def min_def)

lemma place_players_frame:
  "place_players X g rc bc ps h = Inr h' \<Longrightarrow> r \<notin> disc ` set ps \<Longrightarrow> h' r = h r"
proof (induction ps arbitrary: rc bc h)
  case Nil
  then show ?case by simp
next
  case (Cons p rest)
  from Cons.prems(2) have r: "r \<noteq> disc p" "r \<notin> disc ` set rest" by auto
  from Cons.prems(1) obtain d rc' bc' where
    "place_players X g rc' bc' rest (h(disc p := d)) = Inr h'"
    by (auto simp: place_players_Cons simp del: place_players.simps split: if_splits sum.splits)
  from Cons.IH[OF this r(2)] r(1) show ?case by simp
qed

lemma team_index_0: "team_index t ps 0 = 0"
  by (simp add: team_index_def)

lemma team_index_Suc:
  "team_index t (p # rest) (Suc j) = (if team p = t then 1 else 0) + team_index t rest j"
  by (simp add: team_index_def)

lemma place_players_position:
  assumes "place_players X g rc bc ps h = Inr h'" "distinct (map disc ps)" "j < length ps"
  shows "(team (ps ! j) = RED \<longrightarrow>
           (\<exists>pos. spawn_choice (red_spawn_points (stadium_store g)) (rc + team_index RED ps j)
                     (- spawn_distance (stadium_game g), spawn_fallback_y (rc + team_index RED ps j))
                   = Inr pos
                 \<and> position (h' (disc (ps ! j))) = Some pos))
       \<and> (team (ps ! j) = BLUE \<longrightarrow>
           (\<exists>pos. spawn_choice (blue_spawn_points (stadium_store g)) (bc + team_index BLUE ps j)
                     (spawn_distance (stadium_game g), spawn_fallback_y (bc + team_index BLUE ps j))
                   = Inr pos
                 \<and> position (h' (disc (ps ! j))) = Some pos))"
  using assms
proof (induction ps arbitrary: rc bc h j)
  case Nil
  then show ?case by simp
next
  case (Cons p rest)
  from Cons.prems(2) have fresh: "disc p \<notin> disc ` set rest" and dist: "distinct (map disc rest)"
    by auto
  show ?case
  proof (cases j)
    case 0
    have "position (h' (disc p)) = Some pos"
      if "place_players X g rc' bc' rest (h(disc p := d\<lparr>position := Some pos\<rparr>)) = Inr h'"
      for rc' bc' d pos
      using place_players_frame[OF that fresh] by simp
    with Cons.prems(1) 0 show ?thesis
      by (auto simp: place_players_Cons team_index_0 simp del: place_players.simps
          split: if_splits sum.splits)
  next
    case (Suc j')
    with Cons.prems(3) have j': "j' < length rest" by simp
    note IH = Cons.IH[OF _ dist j']
    show ?thesis
    proof (cases "team p = RED")
      case True
      with Cons.prems(1) obtain d where
        run: "place_players X g (rc + 1) bc rest (h(disc p := d)) = Inr h'"
        by (auto simp: place_players_Cons simp del: place_players.simps split: sum.splits)
      from IH[OF run] True Suc show ?thesis
        by (simp add: team_index_Suc add.assoc)
    next
      case notred: False
      show ?thesis
      proof (cases "team p = BLUE")
        case True
        with notred Cons.prems(1) obtain d where
          run: "place_players X g rc (bc + 1) rest (h(disc p := d)) = Inr h'"
          by (auto simp: place_players_Cons simp del: place_players.simps split: sum.splits)
        from IH[OF run] True Suc show ?thesis
          by (simp add: team_index_Suc add.assoc)
      next
        case False
        with notred Cons.prems(1) obtain d where
          run: "place_players X g rc bc rest (h(disc p := d)) = Inr h'"
          by (auto simp: place_players_Cons simp del: place_players.simps)
        from IH[OF run] False notred Suc show ?thesis
          by (simp add: team_index_Suc)
      qed
    qed
  qed
qed

lemma place_players_success:
  "(\<exists>h'. place_players X g rc bc ps h = Inr h') \<longleftrightarrow>
     spawns_fit (red_spawn_points (stadium_store g)) rc (team_count RED ps)
     \<and> spawns_fit (blue_spawn_points (stadium_store g)) bc (team_count BLUE ps)"
proof (induction ps arbitrary: rc bc h)
  case Nil
  then show ?case by (simp add: spawns_fit_def team_count_def)
next
  case (Cons p rest)
  show ?case
  proof (cases "team p = RED")
    case True
    show ?thesis
    proof (cases "spawn_choice (red_spawn_points (stadium_store g)) rc
                (- spawn_distance (stadium_game g), spawn_fallback_y rc)")
      case (Inl e)
      then have "red_spawn_points (stadium_store g) \<noteq> []"
        "length (red_spawn_points (stadium_store g)) \<le> rc"
        by (simp_all add: spawn_choice_Inl)
      then show ?thesis using True
        by (simp add: place_players_Cons Inl spawns_fit_def team_count_def
            del: place_players.simps)
    next
      case (Inr pos)
      then have "red_spawn_points (stadium_store g) \<noteq> [] \<longrightarrow>
          rc < length (red_spawn_points (stadium_store g))"
        by (simp add: spawn_choice_Inr split: if_splits)
      then show ?thesis using True Cons.IH[of "rc + 1" bc]
        by (auto simp: place_players_Cons Inr spawns_fit_def team_count_def
            simp del: place_players.simps)
    qed
  next
    case notred: False
    show ?thesis
    proof (cases "team p = BLUE")
      case True
      show ?thesis
      proof (cases "spawn_choice (blue_spawn_points (stadium_store g)) bc
                (spawn_distance (stadium_game g), spawn_fallback_y bc)")
        case (Inl e)
        then have "blue_spawn_points (stadium_store g) \<noteq> []"
          "length (blue_spawn_points (stadium_store g)) \<le> bc"
          by (simp_all add: spawn_choice_Inl)
        then show ?thesis using True notred
          by (simp add: place_players_Cons Inl spawns_fit_def team_count_def
              del: place_players.simps)
      next
        case (Inr pos)
        then have "blue_spawn_points (stadium_store g) \<noteq> [] \<longrightarrow>
            bc < length (blue_spawn_points (stadium_store g))"
          by (simp add: spawn_choice_Inr split: if_splits)
        then show ?thesis using True notred Cons.IH[of rc "bc + 1"]
          by (auto simp: place_players_Cons Inr spawns_fit_def team_count_def
              simp del: place_players.simps)
      qed
    next
      case False
      then show ?thesis using notred Cons.IH[of rc bc]
        by (simp add: place_players_Cons spawns_fit_def team_count_def del: place_players.simps)
    qed
  qed
qed

lemma place_players_error:
  "place_players X g rc bc ps h = Inl e \<Longrightarrow> e = IndexError"
proof (induction ps arbitrary: rc bc h)
  case Nil
  then show ?case by simp
next
  case (Cons p rest)
  from Cons.prems show ?case
    by (auto simp: place_players_Cons spawn_choice_Inl simp del: place_players.simps
        split: if_splits sum.splits dest: Cons.IH)
qed

lemma copy_discs_frame:
  "r \<notin> fst ` set zs \<Longrightarrow> copy_discs X zs h r = h r"
  by (induction zs arbitrary: h) auto

lemma copy_discs_nth:
  "distinct (map fst zs) \<Longrightarrow> i < length zs \<Longrightarrow>
     copy_discs X zs h (fst (zs ! i)) = Disc_copy X (h (fst (zs ! i))) (snd (zs ! i))"
proof (induction zs arbitrary: h i)
  case Nil
  then show ?case by simp
next
  case (Cons z zs)
  obtain a b where z: "z = (a, b)" by (cases z)
  from Cons.prems(1) z have fresh: "a \<notin> fst ` set zs" and dist: "distinct (map fst zs)"
    by auto
  show ?case
  proof (cases i)
    case 0
    then show ?thesis using copy_discs_frame[OF fresh, of X] z by simp
  next
    case (Suc i')
    with Cons.prems(2) have i': "i' < length zs" by simp
    then have ne: "fst (zs ! i') \<noteq> a" using fresh by (metis image_eqI nth_mem)
    have "copy_discs X (z # zs) h (fst ((z # zs) ! i))
            = copy_discs X zs (h(a := Disc_copy X (h a) b)) (fst (zs ! i'))"
      by (simp add: Suc z)
    also have "\<dots> = Disc_copy X ((h(a := Disc_copy X (h a) b)) (fst (zs ! i'))) (snd (zs ! i'))"
      by (rule Cons.IH[OF dist i'])
    also have "\<dots> = Disc_copy X (h (fst (zs ! i'))) (snd (zs ! i'))"
      using ne by simp
    finally show ?thesis by (simp add: Suc)
  qed
qed

lemma reset_selection_Inr:
  "reset_selection mode ds = Inr sel \<longleftrightarrow>
     (mode = ''full'' \<and> sel = ds) \<or> (mode \<noteq> ''full'' \<and> ds \<noteq> [] \<and> sel = [ds ! 0])"
  by (cases ds) (auto simp: reset_selection_def)

lemma reset_selection_Inl:
  "reset_selection mode ds = Inl e \<longleftrightarrow> mode \<noteq> ''full'' \<and> ds = [] \<and> e = IndexError"
  by (cases ds) (auto simp: reset_selection_def)

lemma reset_discs_positions_Inr:
  assumes "reset_discs_positions X g = Inr g'"
  shows "\<exists>dg ds. reset_selection (kickoff_reset (stadium_game g)) (discs (stadium_game g)) = Inr dg
           \<and> reset_selection (kickoff_reset (stadium_store g)) (discs (stadium_store g)) = Inr ds
           \<and> place_players X g 0 0 (players g) (copy_discs X (zip dg ds) (disc_heap g))
               = Inr (disc_heap g')"
  using assms by (auto simp: reset_discs_positions_def split: sum.splits)

lemma reset_discs_positions_players:
  assumes run: "reset_discs_positions X g = Inr g'"
    and pdist: "distinct (map disc (players g))"
    and j: "j < length (players g)"
  shows "(team (players g ! j) = RED \<longrightarrow>
           (\<exists>pos. spawn_choice (red_spawn_points (stadium_store g)) (team_index RED (players g) j)
                     (- spawn_distance (stadium_game g), spawn_fallback_y (team_index RED (players g) j))
                   = Inr pos
                 \<and> position (disc_heap g' (disc (players g ! j))) = Some pos))
       \<and> (team (players g ! j) = BLUE \<longrightarrow>
           (\<exists>pos. spawn_choice (blue_spawn_points (stadium_store g)) (team_index BLUE (players g) j)
                     (spawn_distance (stadium_game g), spawn_fallback_y (team_index BLUE (players g) j))
                   = Inr pos
                 \<and> position (disc_heap g' (disc (players g ! j))) = Some pos))"
proof -
  from reset_discs_positions_Inr[OF run] obtain h where
    "place_players X g 0 0 (players g) h = Inr (disc_heap g')" by blast
  from place_players_position[OF this pdist j] show ?thesis by simp
qed

lemma reset_discs_positions_success:
  assumes "discs (stadium_game g) \<noteq> []" "discs (stadium_store g) \<noteq> []"
  shows "(\<exists>g'. reset_discs_positions X g = Inr g') \<longleftrightarrow>
            (red_spawn_points (stadium_store g) = []
               \<or> team_count RED (players g) \<le> length (red_spawn_points (stadium_store g)))
          \<and> (blue_spawn_points (stadium_store g) = []
               \<or> team_count BLUE (players g) \<le> length (blue_spawn_points (stadium_store g)))"
proof -
  have sel: "\<exists>sel. reset_selection m xs = Inr sel" if "xs \<noteq> []" for m :: string and xs :: "'x list"
    using that by (cases xs) (simp_all add: reset_selection_def)
  obtain dg where dg: "reset_selection (kickoff_reset (stadium_game g)) (discs (stadium_game g)) = Inr dg"
    using sel[OF assms(1)] by blast
  obtain ds where ds: "reset_selection (kickoff_reset (stadium_store g)) (discs (stadium_store g)) = Inr ds"
    using sel[OF assms(2)] by blast
  have "(\<exists>g'. reset_discs_positions X g = Inr g') \<longleftrightarrow>
          (\<exists>h'. place_players X g 0 0 (players g) (copy_discs X (zip dg ds) (disc_heap g)) = Inr h')"
    by (auto simp: reset_discs_positions_def dg ds split: sum.splits)
  then show ?thesis
    unfolding place_players_success spawns_fit_def by auto
qed

lemma reset_discs_positions_error:
  "reset_discs_positions X g = Inl e \<Longrightarrow> e = IndexError"
  by (auto simp: reset_discs_positions_def reset_selection_Inl split: sum.splits
      dest: place_players_error)

text \<open>
  C8. After a reset that succeeds, on a roster of distinct discs, the player at index \<open>j\<close>
  of a team without spawn points is at \<open>x = -spawn_distance\<close> for red and
  \<open>x = spawn_distance\<close> for blue, and at \<open>y = -55 * ((k + 1) div 2)\<close> for odd \<open>k\<close> and
  \<open>y = 55 * ((k + 1) div 2)\<close> for even \<open>k\<close>, where \<open>k\<close> is the number of players of the same
  team before it in the roster.
\<close>

theorem spawn_fallback_positions:
  assumes "reset_discs_positions X g = Inr g'" "distinct (map disc (players g))"
    "j < length (players g)"
  shows "(team (players g ! j) = RED \<and> red_spawn_points (stadium_store g) = [] \<longrightarrow>
           position (disc_heap g' (disc (players g ! j))) =
             Some (- spawn_distance (stadium_game g),
                   spawn_fallback_y (team_index RED (players g) j)))
       \<and> (team (players g ! j) = BLUE \<and> blue_spawn_points (stadium_store g) = [] \<longrightarrow>
           position (disc_heap g' (disc (players g ! j))) =
             Some (spawn_distance (stadium_game g),
                   spawn_fallback_y (team_index BLUE (players g) j)))"
  using reset_discs_positions_players[OF assms]
  by (auto simp: spawn_choice_Inr)

text \<open>
  C10. With a disc in the live stadium and in the template, \<^verbatim>\<open>reset_discs_positions\<close>
  succeeds exactly when every team with a list of spawn points that is not empty has at most
  as many players as spawn points; otherwise it raises \<^verbatim>\<open>IndexError\<close>, the read at the index
  \<open>min(k, len(spawns)) = len(spawns)\<close> of the player number \<open>k = len(spawns)\<close>. When it
  succeeds, the \<open>k\<close>-th player of such a team has \<open>k < len(spawns)\<close> and is placed at the
  spawn point of index \<open>min(k, len(spawns))\<close>.
\<close>

theorem spawn_index_bounds:
  assumes "discs (stadium_game g) \<noteq> []" "discs (stadium_store g) \<noteq> []"
  shows "((\<exists>g'. reset_discs_positions X g = Inr g') \<longleftrightarrow>
            (red_spawn_points (stadium_store g) = []
               \<or> team_count RED (players g) \<le> length (red_spawn_points (stadium_store g)))
            \<and> (blue_spawn_points (stadium_store g) = []
               \<or> team_count BLUE (players g) \<le> length (blue_spawn_points (stadium_store g))))
       \<and> (\<forall>e. reset_discs_positions X g = Inl e \<longrightarrow> e = IndexError)
       \<and> (\<forall>g' j. reset_discs_positions X g = Inr g' \<and> distinct (map disc (players g))
              \<and> j < length (players g) \<and> team (players g ! j) = RED
              \<and> red_spawn_points (stadium_store g) \<noteq> [] \<longrightarrow>
            team_index RED (players g) j < length (red_spawn_points (stadium_store g))
            \<and> position (disc_heap g' (disc (players g ! j))) =
                Some (red_spawn_points (stadium_store g) !
                        min (team_index RED (players g) j) (length (red_spawn_points (stadium_store g)))))
       \<and> (\<forall>g' j. reset_discs_positions X g = Inr g' \<and> distinct (map disc (players g))
              \<and> j < length (players g) \<and> team (players g ! j) = BLUE
              \<and> blue_spawn_points (stadium_store g) \<noteq> [] \<longrightarrow>
            team_index BLUE (players g) j < length (blue_spawn_points (stadium_store g))
            \<and> position (disc_heap g' (disc (players g ! j))) =
                Some (blue_spawn_points (stadium_store g) !
                        min (team_index BLUE (players g) j) (length (blue_spawn_points (stadium_store g)))))"
proof (intro conjI allI impI)
  show "(\<exists>g'. reset_discs_positions X g = Inr g') \<longleftrightarrow>
            (red_spawn_points (stadium_store g) = []
               \<or> team_count RED (players g) \<le> length (red_spawn_points (stadium_store g)))
            \<and> (blue_spawn_points (stadium_store g) = []
               \<or> team_count BLUE (players g) \<le> length (blue_spawn_points (stadium_store g)))"
    by (rule reset_discs_positions_success[OF assms])
next
  fix e assume "reset_discs_positions X g = Inl e"
  then show "e = IndexError" by (rule reset_discs_positions_error)
next
  fix g' j
  assume a: "reset_discs_positions X g = Inr g' \<and> distinct (map disc (players g))
              \<and> j < length (players g) \<and> team (players g ! j) = RED
              \<and> red_spawn_points (stadium_store g) \<noteq> []"
  from a reset_discs_positions_players[of X g g' j]
  have k: "team_index RED (players g) j < length (red_spawn_points (stadium_store g))"
    and p: "position (disc_heap g' (disc (players g ! j))) =
             Some (red_spawn_points (stadium_store g) ! team_index RED (players g) j)"
    by (auto simp: spawn_choice_Inr)
  show "team_index RED (players g) j < length (red_spawn_points (stadium_store g))" by (rule k)
  show "position (disc_heap g' (disc (players g ! j))) =
                Some (red_spawn_points (stadium_store g) !
                        min (team_index RED (players g) j) (length (red_spawn_points (stadium_store g))))"
    using k p by (simp add: min_def)
next
  fix g' j
  assume a: "reset_discs_positions X g = Inr g' \<and> distinct (map disc (players g))
              \<and> j < length (players g) \<and> team (players g ! j) = BLUE
              \<and> blue_spawn_points (stadium_store g) \<noteq> []"
  from a reset_discs_positions_players[of X g g' j]
  have k: "team_index BLUE (players g) j < length (blue_spawn_points (stadium_store g))"
    and p: "position (disc_heap g' (disc (players g ! j))) =
             Some (blue_spawn_points (stadium_store g) ! team_index BLUE (players g) j)"
    by (auto simp: spawn_choice_Inr)
  show "team_index BLUE (players g) j < length (blue_spawn_points (stadium_store g))" by (rule k)
  show "position (disc_heap g' (disc (players g ! j))) =
                Some (blue_spawn_points (stadium_store g) !
                        min (team_index BLUE (players g) j) (length (blue_spawn_points (stadium_store g))))"
    using k p by (simp add: min_def)
qed

lemma reset_discs_positions_world:
  assumes run: "reset_discs_positions X g = Inr g'"
    and r: "r \<notin> disc ` set (players g)"
  shows "\<exists>dg ds. reset_selection (kickoff_reset (stadium_game g)) (discs (stadium_game g)) = Inr dg
           \<and> reset_selection (kickoff_reset (stadium_store g)) (discs (stadium_store g)) = Inr ds
           \<and> disc_heap g' r = copy_discs X (zip dg ds) (disc_heap g) r"
proof -
  from reset_discs_positions_Inr[OF run] obtain dg ds where
    dg: "reset_selection (kickoff_reset (stadium_game g)) (discs (stadium_game g)) = Inr dg"
    and ds: "reset_selection (kickoff_reset (stadium_store g)) (discs (stadium_store g)) = Inr ds"
    and pl: "place_players X g 0 0 (players g) (copy_discs X (zip dg ds) (disc_heap g))
               = Inr (disc_heap g')"
    by blast
  from place_players_frame[OF pl r] dg ds show ?thesis by blast
qed

text \<open>
  C7. After a reset that succeeds, in a game whose live stadium is a copy of the template
  (same reset mode) with distinct disc objects and whose players have distinct discs: when
  \<^verbatim>\<open>kickoff_reset\<close> is not \<^verbatim>\<open>"full"\<close>, the first disc is the copy of the first disc of the
  template, and every other disc that is not a player's is unchanged; when it is
  \<^verbatim>\<open>"full"\<close>, every disc of the stadium that has a counterpart in the template and is not a
  player's is the copy of its counterpart; in both modes every red or blue player is at the
  spawn position of its team.
\<close>

theorem reset_discs_positions_restores:
  assumes run: "reset_discs_positions X g = Inr g'"
    and mode: "kickoff_reset (stadium_store g) = kickoff_reset (stadium_game g)"
    and dist: "distinct (discs (stadium_game g))"
    and pdist: "distinct (map disc (players g))"
  shows
   "(kickoff_reset (stadium_game g) \<noteq> ''full'' \<longrightarrow>
       (discs (stadium_game g) ! 0 \<notin> disc ` set (players g) \<longrightarrow>
          disc_heap g' (discs (stadium_game g) ! 0) =
            Disc_copy X (disc_heap g (discs (stadium_game g) ! 0)) (discs (stadium_store g) ! 0))
       \<and> (\<forall>r. r \<noteq> discs (stadium_game g) ! 0 \<and> r \<notin> disc ` set (players g) \<longrightarrow>
              disc_heap g' r = disc_heap g r))
    \<and> (kickoff_reset (stadium_game g) = ''full'' \<longrightarrow>
       (\<forall>i. i < length (discs (stadium_game g)) \<and> i < length (discs (stadium_store g))
              \<and> discs (stadium_game g) ! i \<notin> disc ` set (players g) \<longrightarrow>
            disc_heap g' (discs (stadium_game g) ! i) =
              Disc_copy X (disc_heap g (discs (stadium_game g) ! i)) (discs (stadium_store g) ! i)))
    \<and> (\<forall>j. j < length (players g) \<and> (team (players g ! j) = RED \<or> team (players g ! j) = BLUE) \<longrightarrow>
          position (disc_heap g' (disc (players g ! j))) = Some (spawn_position g j))"
proof (intro conjI impI allI)
  assume partial: "kickoff_reset (stadium_game g) \<noteq> ''full''"
  assume r: "discs (stadium_game g) ! 0 \<notin> disc ` set (players g)"
  from reset_discs_positions_world[OF run r] partial mode
  show "disc_heap g' (discs (stadium_game g) ! 0) =
            Disc_copy X (disc_heap g (discs (stadium_game g) ! 0)) (discs (stadium_store g) ! 0)"
    by (auto simp: reset_selection_Inr)
next
  fix r
  assume partial: "kickoff_reset (stadium_game g) \<noteq> ''full''"
  assume r: "r \<noteq> discs (stadium_game g) ! 0 \<and> r \<notin> disc ` set (players g)"
  then have r2: "r \<notin> disc ` set (players g)" by simp
  from reset_discs_positions_world[OF run r2] partial mode r
  show "disc_heap g' r = disc_heap g r"
    by (auto simp: reset_selection_Inr)
next
  fix i
  assume full: "kickoff_reset (stadium_game g) = ''full''"
  assume i: "i < length (discs (stadium_game g)) \<and> i < length (discs (stadium_store g))
              \<and> discs (stadium_game g) ! i \<notin> disc ` set (players g)"
  let ?zs = "zip (discs (stadium_game g)) (discs (stadium_store g))"
  have d: "distinct (map fst ?zs)"
    using dist by (simp add: map_fst_zip_take)
  have len: "i < length ?zs" using i by simp
  from i have r: "discs (stadium_game g) ! i \<notin> disc ` set (players g)" by simp
  from reset_discs_positions_world[OF run r] full mode
  have "disc_heap g' (discs (stadium_game g) ! i) = copy_discs X ?zs (disc_heap g) (fst (?zs ! i))"
    using len by (auto simp: reset_selection_Inr)
  also have "\<dots> = Disc_copy X (disc_heap g (fst (?zs ! i))) (snd (?zs ! i))"
    by (rule copy_discs_nth[OF d len])
  finally show "disc_heap g' (discs (stadium_game g) ! i) =
              Disc_copy X (disc_heap g (discs (stadium_game g) ! i)) (discs (stadium_store g) ! i)"
    using len by simp
next
  fix j
  assume j: "j < length (players g) \<and> (team (players g ! j) = RED \<or> team (players g ! j) = BLUE)"
  then have jl: "j < length (players g)" by simp
  from reset_discs_positions_players[OF run pdist jl] j
  show "position (disc_heap g' (disc (players g ! j))) = Some (spawn_position g j)"
    by (auto simp: spawn_choice_Inr spawn_position_def Let_def split: if_splits)
qed

theorem spawn_fallback_positions_witness:
  "\<exists>g'. reset_discs_positions sample_externals sample_squad_game = Inr g'
     \<and> position (disc_heap g' (disc sample_red2)) = Some (-170, -55)
     \<and> position (disc_heap g' (disc sample_red3)) = Some (-170, 55)"
proof -
  have ne: "discs (stadium_game sample_squad_game) \<noteq> []" "discs (stadium_store sample_squad_game) \<noteq> []"
    and em: "red_spawn_points (stadium_store sample_squad_game) = []"
      "blue_spawn_points (stadium_store sample_squad_game) = []"
    and sd: "spawn_distance (stadium_game sample_squad_game) = 170"
    and ps: "players sample_squad_game = [sample_red, sample_blue, sample_red2, sample_red3]"
    by (simp_all add: sample_squad_game_def sample_game_def)
  have pd: "distinct (map disc (players sample_squad_game))"
    by (simp add: ps sample_red_def sample_blue_def sample_red2_def sample_red3_def)
  from reset_discs_positions_success[OF ne, of sample_externals] em
  obtain g' where run: "reset_discs_positions sample_externals sample_squad_game = Inr g'"
    by auto
  have k2: "team_index RED (players sample_squad_game) 2 = 1"
    and k3: "team_index RED (players sample_squad_game) 3 = 2"
    by (simp_all add: ps team_index_def sample_red_def sample_blue_def sample_red2_def
        sample_red3_def)
  have t: "team sample_red2 = RED" "team sample_red3 = RED"
    by (simp_all add: sample_red2_def sample_red3_def)
  from spawn_fallback_positions[OF run pd, of 2] em t
  have p2: "position (disc_heap g' (disc sample_red2)) = Some (-170, -55)"
    by (simp add: ps sd k2[unfolded ps] spawn_fallback_y_def)
  from spawn_fallback_positions[OF run pd, of 3] em t
  have p3: "position (disc_heap g' (disc sample_red3)) = Some (-170, 55)"
    by (simp add: ps sd k3[unfolded ps] spawn_fallback_y_def)
  from run p2 p3 show ?thesis by blast
qed

theorem spawn_index_bounds_witness:
  "(\<exists>g'. reset_discs_positions sample_externals sample_spawn_game = Inr g'
       \<and> position (disc_heap g' (disc sample_red)) = Some (-100, 0))
   \<and> team_count RED (players sample_crowded_game) = 2
   \<and> length (red_spawn_points (stadium_store sample_crowded_game)) = 1
   \<and> reset_discs_positions sample_externals sample_crowded_game = Inl IndexError"
proof -
  have ne: "discs (stadium_game sample_spawn_game) \<noteq> []" "discs (stadium_store sample_spawn_game) \<noteq> []"
    and rs: "red_spawn_points (stadium_store sample_spawn_game) = [(-100, 0)]"
    and bs: "blue_spawn_points (stadium_store sample_spawn_game) = []"
    and ps: "players sample_spawn_game = [sample_red, sample_blue]"
    by (simp_all add: sample_spawn_game_def sample_game_def)
  have pd: "distinct (map disc (players sample_spawn_game))"
    by (simp add: ps sample_red_def sample_blue_def)
  have tc: "team_count RED (players sample_spawn_game) = 1"
    and k0: "team_index RED (players sample_spawn_game) 0 = 0"
    and t: "team sample_red = RED"
    by (simp_all add: ps team_count_def team_index_def sample_red_def sample_blue_def)
  note A = spawn_index_bounds[OF ne, of sample_externals]
  from A rs bs tc obtain g' where run: "reset_discs_positions sample_externals sample_spawn_game = Inr g'"
    by auto
  from A have "reset_discs_positions sample_externals sample_spawn_game = Inr g'
      \<and> distinct (map disc (players sample_spawn_game))
      \<and> 0 < length (players sample_spawn_game) \<and> team (players sample_spawn_game ! 0) = RED
      \<and> red_spawn_points (stadium_store sample_spawn_game) \<noteq> [] \<longrightarrow>
        position (disc_heap g' (disc (players sample_spawn_game ! 0))) =
          Some (red_spawn_points (stadium_store sample_spawn_game) !
                  min (team_index RED (players sample_spawn_game) 0)
                    (length (red_spawn_points (stadium_store sample_spawn_game))))"
    by blast
  with run pd t have p: "position (disc_heap g' (disc sample_red)) = Some (-100, 0)"
    by (simp add: ps rs k0[unfolded ps])
  have ne2: "discs (stadium_game sample_crowded_game) \<noteq> []"
      "discs (stadium_store sample_crowded_game) \<noteq> []"
    and rs2: "red_spawn_points (stadium_store sample_crowded_game) = [(-100, 0)]"
    and ps2: "players sample_crowded_game = [sample_red, sample_blue, sample_red2]"
    by (simp_all add: sample_crowded_game_def sample_spawn_game_def sample_game_def)
  have tc2: "team_count RED (players sample_crowded_game) = 2"
    by (simp add: ps2 team_count_def sample_red_def sample_blue_def sample_red2_def)
  note B = spawn_index_bounds[OF ne2, of sample_externals]
  from B rs2 tc2 have "\<not> (\<exists>g'. reset_discs_positions sample_externals sample_crowded_game = Inr g')"
    by simp
  then obtain e where "reset_discs_positions sample_externals sample_crowded_game = Inl e"
    by (cases "reset_discs_positions sample_externals sample_crowded_game") auto
  with B have fail: "reset_discs_positions sample_externals sample_crowded_game = Inl IndexError"
    by blast
  from run p tc2 rs2 fail show ?thesis by auto
qed

theorem reset_discs_positions_restores_witness:
  "(\<exists>g'. reset_discs_positions sample_externals sample_reset_game = Inr g'
       \<and> disc_heap g' 0 = sample_ball
       \<and> disc_heap g' 5 = sample_disc0\<lparr>position := Some (120, 60), velocity := (1, 1)\<rparr>
       \<and> position (disc_heap g' (disc sample_blue)) = Some (170, 0))
   \<and> (\<exists>g'. reset_discs_positions sample_externals sample_reset_full = Inr g'
       \<and> disc_heap g' 0 = sample_ball
       \<and> disc_heap g' 5 = sample_disc0
       \<and> position (disc_heap g' (disc sample_blue)) = Some (170, 0))"
proof
  let ?g = sample_reset_game
  have gd: "discs (stadium_game ?g) = [0, 5, 1, 2]"
    and sd: "discs (stadium_store ?g) = [sample_ball, sample_disc0]"
    and km: "kickoff_reset (stadium_game ?g) = ''partial''" "kickoff_reset (stadium_store ?g) = ''partial''"
    and em: "red_spawn_points (stadium_store ?g) = []" "blue_spawn_points (stadium_store ?g) = []"
    and dist: "spawn_distance (stadium_game ?g) = 170"
    and ps: "players ?g = [sample_red, sample_blue]"
    and h0: "disc_heap ?g 0 = sample_ball\<lparr>position := Some (-375, 0), velocity := (-99 / 10, 0)\<rparr>"
    and h5: "disc_heap ?g 5 = sample_disc0\<lparr>position := Some (120, 60), velocity := (1, 1)\<rparr>"
    by (simp_all add: sample_reset_game_def sample_game_def)
  have pd: "distinct (map disc (players ?g))" and pl: "disc ` set (players ?g) = {1, 2}"
    by (auto simp: ps sample_red_def sample_blue_def)
  have cp: "Disc_copy sample_externals = sample_copy" by (simp add: sample_externals_def)
  from reset_discs_positions_success[of ?g sample_externals] em gd sd
  obtain g' where run: "reset_discs_positions sample_externals ?g = Inr g'" by auto
  note T = reset_discs_positions_restores[OF run _ _ pd]
  have m: "kickoff_reset (stadium_store ?g) = kickoff_reset (stadium_game ?g)" by (simp add: km)
  have d: "distinct (discs (stadium_game ?g))" by (simp add: gd)
  from T[OF m d] km have
    b: "discs (stadium_game ?g) ! 0 \<notin> disc ` set (players ?g) \<longrightarrow>
          disc_heap g' (discs (stadium_game ?g) ! 0) =
            Disc_copy sample_externals (disc_heap ?g (discs (stadium_game ?g) ! 0))
              (discs (stadium_store ?g) ! 0)"
    and o: "\<forall>r. r \<noteq> discs (stadium_game ?g) ! 0 \<and> r \<notin> disc ` set (players ?g) \<longrightarrow>
              disc_heap g' r = disc_heap ?g r"
    and p: "\<forall>j. j < length (players ?g) \<and> (team (players ?g ! j) = RED \<or> team (players ?g ! j) = BLUE) \<longrightarrow>
          position (disc_heap g' (disc (players ?g ! j))) = Some (spawn_position ?g j)"
    by simp_all
  from b have r0: "disc_heap g' 0 = sample_ball"
    by (simp add: gd sd pl cp h0 sample_copy_def sample_ball_def)
  from o have "5 \<noteq> discs (stadium_game ?g) ! 0 \<and> 5 \<notin> disc ` set (players ?g) \<longrightarrow>
              disc_heap g' 5 = disc_heap ?g 5" by blast
  then have r5: "disc_heap g' 5 = sample_disc0\<lparr>position := Some (120, 60), velocity := (1, 1)\<rparr>"
    by (simp add: gd pl h5)
  from p have "1 < length (players ?g) \<and> (team (players ?g ! 1) = RED \<or> team (players ?g ! 1) = BLUE) \<longrightarrow>
          position (disc_heap g' (disc (players ?g ! 1))) = Some (spawn_position ?g 1)" by blast
  then have rb: "position (disc_heap g' (disc sample_blue)) = Some (170, 0)"
    by (simp add: ps spawn_position_def em dist team_index_def spawn_fallback_y_def
        sample_blue_def sample_red_def)
  from run r0 r5 rb
  show "\<exists>g'. reset_discs_positions sample_externals sample_reset_game = Inr g'
       \<and> disc_heap g' 0 = sample_ball
       \<and> disc_heap g' 5 = sample_disc0\<lparr>position := Some (120, 60), velocity := (1, 1)\<rparr>
       \<and> position (disc_heap g' (disc sample_blue)) = Some (170, 0)"
    by blast
next
  let ?g = sample_reset_full
  have gd: "discs (stadium_game ?g) = [0, 5, 1, 2]"
    and sd: "discs (stadium_store ?g) = [sample_ball, sample_disc0]"
    and km: "kickoff_reset (stadium_game ?g) = ''full''" "kickoff_reset (stadium_store ?g) = ''full''"
    and em: "red_spawn_points (stadium_store ?g) = []" "blue_spawn_points (stadium_store ?g) = []"
    and dist: "spawn_distance (stadium_game ?g) = 170"
    and ps: "players ?g = [sample_red, sample_blue]"
    and h0: "disc_heap ?g 0 = sample_ball\<lparr>position := Some (-375, 0), velocity := (-99 / 10, 0)\<rparr>"
    and h5: "disc_heap ?g 5 = sample_disc0\<lparr>position := Some (120, 60), velocity := (1, 1)\<rparr>"
    by (simp_all add: sample_reset_full_def sample_reset_game_def sample_game_def)
  have pd: "distinct (map disc (players ?g))" and pl: "disc ` set (players ?g) = {1, 2}"
    by (auto simp: ps sample_red_def sample_blue_def)
  have cp: "Disc_copy sample_externals = sample_copy" by (simp add: sample_externals_def)
  from reset_discs_positions_success[of ?g sample_externals] em gd sd
  obtain g' where run: "reset_discs_positions sample_externals ?g = Inr g'" by auto
  note T = reset_discs_positions_restores[OF run _ _ pd]
  have m: "kickoff_reset (stadium_store ?g) = kickoff_reset (stadium_game ?g)" by (simp add: km)
  have d: "distinct (discs (stadium_game ?g))" by (simp add: gd)
  from T[OF m d] km have
    f: "\<forall>i. i < length (discs (stadium_game ?g)) \<and> i < length (discs (stadium_store ?g))
              \<and> discs (stadium_game ?g) ! i \<notin> disc ` set (players ?g) \<longrightarrow>
            disc_heap g' (discs (stadium_game ?g) ! i) =
              Disc_copy sample_externals (disc_heap ?g (discs (stadium_game ?g) ! i))
                (discs (stadium_store ?g) ! i)"
    and p: "\<forall>j. j < length (players ?g) \<and> (team (players ?g ! j) = RED \<or> team (players ?g ! j) = BLUE) \<longrightarrow>
          position (disc_heap g' (disc (players ?g ! j))) = Some (spawn_position ?g j)"
    by simp_all
  from f[rule_format, of 0] have r0: "disc_heap g' 0 = sample_ball"
    by (simp add: gd sd pl cp h0 sample_copy_def sample_ball_def)
  from f[rule_format, of 1] have r5: "disc_heap g' 5 = sample_disc0"
    by (simp add: gd sd pl cp h5 sample_copy_def sample_disc0_def sample_ball_def)
  from p[rule_format, of 1] have rb: "position (disc_heap g' (disc sample_blue)) = Some (170, 0)"
    by (simp add: ps spawn_position_def em dist team_index_def spawn_fallback_y_def
        sample_blue_def sample_red_def)
  from run r0 r5 rb
  show "\<exists>g'. reset_discs_positions sample_externals sample_reset_full = Inr g'
       \<and> disc_heap g' 0 = sample_ball
       \<and> disc_heap g' 5 = sample_disc0
       \<and> position (disc_heap g' (disc sample_blue)) = Some (170, 0)"
    by blast
qed

subsection \<open>The kickoff barrier\<close>





subsection \<open>One tick\<close>

lemma apply_actions_paired:
  "apply_actions X g rows ps h = Inr (paired X g rows ps h)"
  by (induction X g rows ps h rule: paired.induct)
     (simp_all add: make_player_action_def normalize_action_int_row split: prod.splits
        del: normalize_action.simps)

lemma step_after_physics:
  "step X g (ActionsArray rows) =
     (case handle_game_state X (snd (after_physics X g rows)) (fst (after_physics X g rows)) of
        Inl e \<Rightarrow> Inl e
      | Inr (fin, g4) \<Rightarrow>
          (case recorder g4 of
             None \<Rightarrow> Inr (fin, g4)
           | Some r \<Rightarrow>
               (case recorder_step X rows r of
                  Inl e \<Rightarrow> Inl e
                | Inr r' \<Rightarrow> Inr (fin, g4\<lparr>recorder := Some r'\<rparr>))))"
  by (simp add: step_def after_physics_def apply_actions_paired Let_def split: prod.splits)

lemma after_physics_fields:
  "state (snd (after_physics X g rows)) = state g"
  "stadium_game (snd (after_physics X g rows)) = stadium_game g"
  "recorder (snd (after_physics X g rows)) = recorder g"
  "team_kickoff (snd (after_physics X g rows)) = team_kickoff g"
  "players (snd (after_physics X g rows)) = fst (paired X g rows (players g) (disc_heap g))"
  by (simp_all add: after_physics_def Let_def split: prod.splits)

lemma after_physics_paired:
  assumes "paired X g rows (players g) (disc_heap g) = (ps, h)"
  shows "after_physics X (g\<lparr>players := ps, disc_heap := h\<rparr>) [] = after_physics X g rows"
  using assms by (simp add: after_physics_def)

lemma paired_take:
  "paired X g (take (length ps) rows) ps h = paired X g rows ps h"
proof (induction ps arbitrary: rows h)
  case Nil
  then show ?case by (cases rows) simp_all
next
  case (Cons p ps)
  then show ?case by (cases rows) (simp_all split: prod.splits)
qed

lemma paired_length:
  "length (fst (paired X g rows ps h)) = length ps"
proof (induction ps arbitrary: rows h)
  case Nil
  then show ?case by (cases rows) simp_all
next
  case (Cons p ps)
  show ?case
  proof (cases rows)
    case Nil
    then show ?thesis by simp
  next
    case (Cons row rows')
    then show ?thesis
      using Cons.IH[of rows'] by (simp split: prod.splits) (metis fst_conv)
  qed
qed

lemma paired_drop:
  "drop (length rows) (fst (paired X g rows ps h)) = drop (length rows) ps"
proof (induction ps arbitrary: rows h)
  case Nil
  then show ?case by (cases rows) simp_all
next
  case (Cons p ps)
  show ?case
  proof (cases rows)
    case Nil
    then show ?thesis by simp
  next
    case (Cons row rows')
    then show ?thesis
      using Cons.IH[of rows'] by (simp split: prod.splits) (metis fst_conv)
  qed
qed

lemma paired_action:
  assumes "\<And>st sc p h. action (fst (resolve_movement X st sc p h)) = action p"
  shows "i < length rows \<Longrightarrow> i < length ps \<Longrightarrow>
           action (fst (paired X g rows ps h) ! i) = rows ! i"
proof (induction ps arbitrary: rows h i)
  case Nil
  then show ?case by simp
next
  case (Cons p ps)
  then obtain row rows' where rows: "rows = row # rows'" by (cases rows) auto
  obtain p' h' where mk:
    "resolve_movement X (stadium_game g) (score g) (p\<lparr>action := row\<rparr>) h = (p', h')"
    by (cases "resolve_movement X (stadium_game g) (score g) (p\<lparr>action := row\<rparr>) h")
  have ap: "action p' = row"
    using mk assms[of "stadium_game g" "score g" "p\<lparr>action := row\<rparr>" h] by simp
  obtain rest' h'' where rec: "paired X g rows' ps h' = (rest', h'')"
    by (cases "paired X g rows' ps h'")
  show ?case
  proof (cases i)
    case 0
    then show ?thesis by (simp add: rows mk rec ap)
  next
    case (Suc i')
    with Cons.prems rows have "i' < length rows'" "i' < length ps" by simp_all
    from Cons.IH[OF this, of h'] show ?thesis by (simp add: rows mk rec Suc)
  qed
qed

lemma place_players_game_only:
  "reset_discs_positions X g = Inr g' \<Longrightarrow> recorder g' = recorder g \<and> players g' = players g"
  by (auto simp: reset_discs_positions_def split: sum.splits)

lemma handle_game_state_recorder:
  "handle_game_state X g previous = Inr (fin, g') \<Longrightarrow> recorder g' = recorder g"
  by (cases "state g")
     (auto simp: handle_game_state_def handle_kickoff_state_def handle_playing_state_def
        handle_goal_state_def handle_end_state_def Let_def
        split: sum.splits list.splits if_splits dest: place_players_game_only)

lemma handle_game_state_kickoff_players:
  assumes "state g = KICKOFF" "discs (stadium_game g) \<noteq> []"
  shows "\<exists>g'. handle_game_state X g previous = Inr (False, g')
           \<and> players g' = players g \<and> recorder g' = recorder g"
  using assms
  by (cases "discs (stadium_game g)")
     (auto simp: handle_game_state_def handle_kickoff_state_def Let_def)

lemma handle_game_state_end:
  assumes "state g = END"
  shows "\<exists>fin g'. handle_game_state X g previous = Inr (fin, g') \<and> players g' = players g"
  using assms by (simp add: handle_game_state_def handle_end_state_def Let_def)

lemma check_goal_goals_error:
  "check_goal_goals X p c gs = Inl e \<Longrightarrow> e = TypeError"
  by (induction gs) (auto simp: Let_def split: option.splits if_splits)

lemma check_goal_pairs_error:
  "check_goal_pairs X pcs gs = Inl e \<Longrightarrow> e = TypeError"
proof (induction pcs)
  case Nil
  then show ?case by simp
next
  case (Cons a pcs)
  obtain p c where a: "a = (p, c)" by (cases a)
  from Cons show ?case
    by (auto simp: a split: sum.splits option.splits dest: check_goal_goals_error)
qed

lemma handle_game_state_error:
  assumes "handle_game_state X g previous = Inl e"
  shows "e = IndexError \<or> e = TypeError"
proof (cases "state g")
  case KICKOFF
  with assms show ?thesis
    by (auto simp: handle_game_state_def handle_kickoff_state_def Let_def
        split: sum.splits list.splits)
next
  case PLAYING
  with assms show ?thesis
    by (auto simp: handle_game_state_def handle_playing_state_def check_goal_def Let_def
        split: sum.splits if_splits dest: check_goal_pairs_error)
next
  case GOAL
  with assms show ?thesis
    by (auto simp: handle_game_state_def handle_goal_state_def Let_def
        split: sum.splits if_splits dest: reset_discs_positions_error)
next
  case END
  with assms show ?thesis
    by (simp add: handle_game_state_def Let_def)
qed

lemma handle_game_state_players:
  "handle_game_state X g previous = Inr (fin, g') \<Longrightarrow> players g' = players g"
  by (cases "state g")
     (auto simp: handle_game_state_def handle_kickoff_state_def handle_playing_state_def
        handle_goal_state_def handle_end_state_def Let_def
        split: sum.splits list.splits if_splits dest: place_players_game_only)

lemma step_players:
  assumes "step X g (ActionsArray rows) = Inr (fin, g')"
  shows "players g' = fst (paired X g rows (players g) (disc_heap g))"
proof -
  let ?a = "after_physics X g rows"
  from assms obtain g4 where run: "handle_game_state X (snd ?a) (fst ?a) = Inr (fin, g4)"
    and ps: "players g' = players g4"
    by (auto simp: step_after_physics split: sum.splits option.splits)
  from handle_game_state_players[OF run] ps show ?thesis
    by (simp add: after_physics_fields)
qed

lemma step_without_recorder:
  assumes "recorder g = None"
  shows "step X g (ActionsArray rows) =
     (case handle_game_state X (snd (after_physics X g rows)) (fst (after_physics X g rows)) of
        Inl e \<Rightarrow> Inl e
      | Inr (fin, g4) \<Rightarrow> Inr (fin, g4))"
proof (cases "handle_game_state X (snd (after_physics X g rows)) (fst (after_physics X g rows))")
  case (Inl e)
  then show ?thesis by (simp add: step_after_physics)
next
  case (Inr r)
  obtain fin g4 where r: "r = (fin, g4)" by (cases r)
  from handle_game_state_recorder[OF Inr[unfolded r]] assms
  have "recorder g4 = None" by (simp add: after_physics_fields)
  then show ?thesis by (simp add: step_after_physics Inr r)
qed

lemma after_physics_take:
  "after_physics X g (take (length (players g)) rows) = after_physics X g rows"
  by (simp add: after_physics_def paired_take)

lemma step_ignores_surplus_rows:
  assumes "recorder g = None"
  shows "step X g (ActionsArray rows) = step X g (ActionsArray (take (length (players g)) rows))"
  by (simp add: step_without_recorder[OF assms] after_physics_take)

lemma step_is_pairing_then_tick:
  assumes "recorder g = None" "paired X g rows (players g) (disc_heap g) = (ps, h)"
  shows "step X g (ActionsArray rows) = step X (g\<lparr>players := ps, disc_heap := h\<rparr>) (ActionsArray [])"
proof -
  have "recorder (g\<lparr>players := ps, disc_heap := h\<rparr>) = None" using assms(1) by simp
  from step_without_recorder[OF this, of X "[]"] step_without_recorder[OF assms(1), of X rows]
  show ?thesis by (simp add: after_physics_paired[OF assms(2)])
qed

lemma step_error:
  assumes "recorder g = None" "step X g (ActionsArray rows) = Inl e"
  shows "e = IndexError \<or> e = TypeError"
  using assms(2) handle_game_state_error[of X "snd (after_physics X g rows)" "fst (after_physics X g rows)"]
  by (auto simp: step_without_recorder[OF assms(1)] split: sum.splits)

lemma step_kickoff_success:
  assumes "state g = KICKOFF" "discs (stadium_game g) \<noteq> []" "recorder g = None"
  shows "\<exists>g'. step X g (ActionsArray rows) = Inr (False, g')
           \<and> players g' = fst (paired X g rows (players g) (disc_heap g))"
proof -
  let ?a = "after_physics X g rows"
  have "state (snd ?a) = KICKOFF" "discs (stadium_game (snd ?a)) \<noteq> []"
    using assms by (simp_all add: after_physics_fields)
  from handle_game_state_kickoff_players[OF this, of X "fst ?a"]
  obtain g' where run: "handle_game_state X (snd ?a) (fst ?a) = Inr (False, g')"
    and ps: "players g' = players (snd ?a)"
    by blast
  then show ?thesis
    by (simp add: step_without_recorder[OF assms(3)] after_physics_fields)
qed

lemma step_end_success:
  assumes "state g = END" "recorder g = None"
  shows "\<exists>fin g'. step X g (ActionsArray rows) = Inr (fin, g')
           \<and> players g' = fst (paired X g rows (players g) (disc_heap g))"
proof -
  let ?a = "after_physics X g rows"
  have "state (snd ?a) = END" using assms by (simp add: after_physics_fields)
  from handle_game_state_end[OF this, of X "fst ?a"]
  obtain fin g' where run: "handle_game_state X (snd ?a) (fst ?a) = Inr (fin, g')"
    and ps: "players g' = players (snd ?a)"
    by blast
  then show ?thesis
    by (simp add: step_without_recorder[OF assms(2)] after_physics_fields)
qed

lemma recorder_step_loop_overflow:
  "i \<le> length pa \<Longrightarrow> length pa < i + length rows \<Longrightarrow>
     \<forall>x \<in> set pa. \<exists>xs. x = PList xs \<Longrightarrow>
     recorder_step_loop X i rows pa = Inl IndexError"
proof (induction rows arbitrary: i pa)
  case Nil
  then show ?case by simp
next
  case (Cons row rows)
  show ?case
  proof (cases "i < length pa")
    case False
    then show ?thesis by simp
  next
    case True
    with Cons.prems(3) obtain xs where xs: "pa ! i = PList xs" by (metis nth_mem)
    show ?thesis
    proof (cases "input_translate_js X row")
      case (Inl e)
      then have "e = IndexError" by (auto simp: input_translate_js_def Let_def split: if_splits)
      with Inl True xs show ?thesis by simp
    next
      case (Inr v)
      have le: "Suc i \<le> length (pa[i := PList (xs @ [PInt v])])"
        using True by simp
      have len: "length (pa[i := PList (xs @ [PInt v])]) < Suc i + length rows"
        using Cons.prems(2) by simp
      have lists: "\<forall>x \<in> set (pa[i := PList (xs @ [PInt v])]). \<exists>ys. x = PList ys"
        using Cons.prems(3) by (auto dest!: set_update_subset_insert[THEN subsetD])
      from Cons.IH[OF le len lists] Inr True xs show ?thesis by simp
    qed
  qed
qed

lemma step_recorder_overflow:
  assumes "recorder g = Some r"
    and "\<forall>x \<in> set (player_action r). \<exists>xs. x = PList xs"
    and "length (player_action r) < length rows"
  shows "\<exists>e. step X g (ActionsArray rows) = Inl e"
proof (cases "handle_game_state X (snd (after_physics X g rows)) (fst (after_physics X g rows))")
  case (Inl e)
  then show ?thesis by (simp add: step_after_physics)
next
  case (Inr res)
  obtain fin g4 where res: "res = (fin, g4)" by (cases res)
  from handle_game_state_recorder[OF Inr[unfolded res]] assms(1)
  have rc: "recorder g4 = Some r" by (simp add: after_physics_fields)
  have "recorder_step X rows r = Inl IndexError"
    using recorder_step_loop_overflow[of 0 "player_action r" rows X] assms(2,3)
    by (simp add: recorder_step_def)
  with rc show ?thesis by (simp add: step_after_physics Inr res)
qed

lemma step_kickoff_recorder_overflow:
  assumes "state g = KICKOFF" "discs (stadium_game g) \<noteq> []" "recorder g = Some r"
    and "\<forall>x \<in> set (player_action r). \<exists>xs. x = PList xs"
    and "length (player_action r) < length rows"
  shows "step X g (ActionsArray rows) = Inl IndexError"
proof -
  let ?a = "after_physics X g rows"
  have "state (snd ?a) = KICKOFF" "discs (stadium_game (snd ?a)) \<noteq> []"
    using assms by (simp_all add: after_physics_fields)
  from handle_game_state_kickoff_players[OF this, of X "fst ?a"]
  obtain g' where run: "handle_game_state X (snd ?a) (fst ?a) = Inr (False, g')"
    and rc: "recorder g' = recorder (snd ?a)"
    by blast
  have "recorder_step X rows r = Inl IndexError"
    using recorder_step_loop_overflow[of 0 "player_action r" rows X] assms(4,5)
    by (simp add: recorder_step_def)
  with run rc assms(3) show ?thesis
    by (simp add: step_after_physics after_physics_fields)
qed

lemma comprehension_length:
  "comprehension f xs = Inr ys \<Longrightarrow> length ys = length xs"
  by (induction xs arbitrary: ys) (auto split: sum.splits)

lemma np_array_Inr: "np_array rs = Inr rows \<Longrightarrow> rows = rs"
  by (auto simp: np_array_def split: if_splits)

text \<open>
  C4, amended. \<^verbatim>\<open>step\<close> does not compare the number of rows with the number of players:
  its loop pairs the row at index \<open>i\<close> with the player at index \<open>i\<close>. For every game, in
  every state, and every integer array: the loop raises nothing, keeps the length of the
  roster, leaves the players from the index of the number of rows on unchanged, and,
  provided \<^verbatim>\<open>resolve_movement\<close> leaves the action alone, gives every player that has a row
  this row as its action; a tick that succeeds leaves the roster as the loop left it.
  Without a recorder, the tick is the tick without any row of the game that the loop leaves,
  and it is the tick with the rows beyond the number of players removed; it raises nothing
  but \<^verbatim>\<open>IndexError\<close> and \<^verbatim>\<open>TypeError\<close>; in the state \<open>KICKOFF\<close> (the live stadium having
  a disc) it succeeds and returns \<^verbatim>\<open>False\<close>, and in the state \<open>END\<close> it succeeds, whatever
  the number of rows. With a recorder whose action streams are lists and are fewer than the
  rows, the tick raises an exception, which in the state \<open>KICKOFF\<close> (the live stadium having
  a disc) is \<^verbatim>\<open>IndexError\<close>. A list of actions that normalizes and converts to an array has
  as many rows as the list has actions, and its tick is that of the array.
\<close>

theorem step_pairs_rows_with_players:
  "(\<exists>ps h. apply_actions X g rows (players g) (disc_heap g) = Inr (ps, h)
      \<and> length ps = length (players g)
      \<and> drop (length rows) ps = drop (length rows) (players g)
      \<and> ((\<forall>st sc p h. action (fst (resolve_movement X st sc p h)) = action p) \<longrightarrow>
           (\<forall>i. i < length rows \<and> i < length (players g) \<longrightarrow> action (ps ! i) = rows ! i))
      \<and> (\<forall>fin g'. step X g (ActionsArray rows) = Inr (fin, g') \<longrightarrow> players g' = ps)
      \<and> (recorder g = None \<longrightarrow>
           step X g (ActionsArray rows) =
             step X (g\<lparr>players := ps, disc_heap := h\<rparr>) (ActionsArray [])
           \<and> step X g (ActionsArray rows) =
               step X g (ActionsArray (take (length (players g)) rows))
           \<and> (\<forall>e. step X g (ActionsArray rows) = Inl e \<longrightarrow> e = IndexError \<or> e = TypeError)
           \<and> (state g = KICKOFF \<and> discs (stadium_game g) \<noteq> [] \<longrightarrow>
                (\<exists>g'. step X g (ActionsArray rows) = Inr (False, g')))
           \<and> (state g = END \<longrightarrow> (\<exists>fin g'. step X g (ActionsArray rows) = Inr (fin, g')))))
   \<and> (recorder g = Some r \<and> (\<forall>x \<in> set (player_action r). \<exists>xs. x = PList xs)
        \<and> length (player_action r) < length rows \<longrightarrow>
        (\<exists>e. step X g (ActionsArray rows) = Inl e)
        \<and> (state g = KICKOFF \<and> discs (stadium_game g) \<noteq> [] \<longrightarrow>
             step X g (ActionsArray rows) = Inl IndexError))
   \<and> (comprehension normalize_action as = Inr rs \<and> np_array rs = Inr rows \<longrightarrow>
        length rows = length as \<and> step X g (ActionsSeq as) = step X g (ActionsArray rows))"
proof (intro conjI)
  obtain ps h where pr: "paired X g rows (players g) (disc_heap g) = (ps, h)"
    by (cases "paired X g rows (players g) (disc_heap g)")
  then have "fst (paired X g rows (players g) (disc_heap g)) = ps" by simp
  note ps = this[symmetric]
  have 1: "apply_actions X g rows (players g) (disc_heap g) = Inr (ps, h)"
    by (simp add: apply_actions_paired pr)
  have 2: "length ps = length (players g)" unfolding ps by (rule paired_length)
  have 3: "drop (length rows) ps = drop (length rows) (players g)"
    unfolding ps by (rule paired_drop)
  have 4: "(\<forall>st sc p h. action (fst (resolve_movement X st sc p h)) = action p) \<longrightarrow>
           (\<forall>i. i < length rows \<and> i < length (players g) \<longrightarrow> action (ps ! i) = rows ! i)"
    unfolding ps using paired_action[of X _ rows "players g" g "disc_heap g"] by auto
  have 5: "\<forall>fin g'. step X g (ActionsArray rows) = Inr (fin, g') \<longrightarrow> players g' = ps"
    unfolding ps using step_players by blast
  have 6: "recorder g = None \<longrightarrow>
           step X g (ActionsArray rows) =
             step X (g\<lparr>players := ps, disc_heap := h\<rparr>) (ActionsArray [])
           \<and> step X g (ActionsArray rows) =
               step X g (ActionsArray (take (length (players g)) rows))
           \<and> (\<forall>e. step X g (ActionsArray rows) = Inl e \<longrightarrow> e = IndexError \<or> e = TypeError)
           \<and> (state g = KICKOFF \<and> discs (stadium_game g) \<noteq> [] \<longrightarrow>
                (\<exists>g'. step X g (ActionsArray rows) = Inr (False, g')))
           \<and> (state g = END \<longrightarrow> (\<exists>fin g'. step X g (ActionsArray rows) = Inr (fin, g')))"
  proof (intro impI conjI allI)
    assume none: "recorder g = None"
    show "step X g (ActionsArray rows) =
             step X (g\<lparr>players := ps, disc_heap := h\<rparr>) (ActionsArray [])"
      by (rule step_is_pairing_then_tick[OF none pr])
    show "step X g (ActionsArray rows) =
               step X g (ActionsArray (take (length (players g)) rows))"
      by (rule step_ignores_surplus_rows[OF none])
    show "e = IndexError \<or> e = TypeError" if "step X g (ActionsArray rows) = Inl e" for e
      using that by (rule step_error[OF none])
    show "\<exists>g'. step X g (ActionsArray rows) = Inr (False, g')"
      if "state g = KICKOFF \<and> discs (stadium_game g) \<noteq> []"
      using step_kickoff_success[of g X rows] that none by blast
    show "\<exists>fin g'. step X g (ActionsArray rows) = Inr (fin, g')"
      if "state g = END"
      using step_end_success[of g X rows] that none by blast
  qed
  from 1 2 3 4 5 6
  show "\<exists>ps h. apply_actions X g rows (players g) (disc_heap g) = Inr (ps, h)
      \<and> length ps = length (players g)
      \<and> drop (length rows) ps = drop (length rows) (players g)
      \<and> ((\<forall>st sc p h. action (fst (resolve_movement X st sc p h)) = action p) \<longrightarrow>
           (\<forall>i. i < length rows \<and> i < length (players g) \<longrightarrow> action (ps ! i) = rows ! i))
      \<and> (\<forall>fin g'. step X g (ActionsArray rows) = Inr (fin, g') \<longrightarrow> players g' = ps)
      \<and> (recorder g = None \<longrightarrow>
           step X g (ActionsArray rows) =
             step X (g\<lparr>players := ps, disc_heap := h\<rparr>) (ActionsArray [])
           \<and> step X g (ActionsArray rows) =
               step X g (ActionsArray (take (length (players g)) rows))
           \<and> (\<forall>e. step X g (ActionsArray rows) = Inl e \<longrightarrow> e = IndexError \<or> e = TypeError)
           \<and> (state g = KICKOFF \<and> discs (stadium_game g) \<noteq> [] \<longrightarrow>
                (\<exists>g'. step X g (ActionsArray rows) = Inr (False, g')))
           \<and> (state g = END \<longrightarrow> (\<exists>fin g'. step X g (ActionsArray rows) = Inr (fin, g'))))"
    by (intro exI[of _ ps] exI[of _ h] conjI)
next
  show "recorder g = Some r \<and> (\<forall>x \<in> set (player_action r). \<exists>xs. x = PList xs)
        \<and> length (player_action r) < length rows \<longrightarrow>
        (\<exists>e. step X g (ActionsArray rows) = Inl e)
        \<and> (state g = KICKOFF \<and> discs (stadium_game g) \<noteq> [] \<longrightarrow>
             step X g (ActionsArray rows) = Inl IndexError)"
    using step_kickoff_recorder_overflow[of g r rows X] step_recorder_overflow[of g r rows X]
    by blast
next
  show "comprehension normalize_action as = Inr rs \<and> np_array rs = Inr rows \<longrightarrow>
        length rows = length as \<and> step X g (ActionsSeq as) = step X g (ActionsArray rows)"
    by (auto simp: step_def dest: comprehension_length np_array_Inr)
qed

text \<open>
  C4 as the specification states it fails: the sample game has two players, and a tick
  with one row of actions succeeds.
\<close>

theorem step_accepts_short_actions:
  "length [[1, 0, 0 :: int]] \<noteq> length (players sample_game)
   \<and> (\<exists>g'. step sample_externals sample_game (ActionsArray [[1, 0, 0]]) = Inr (False, g'))"
proof -
  have "state sample_game = KICKOFF" "discs (stadium_game sample_game) \<noteq> []"
    "recorder sample_game = None"
    by (simp_all add: sample_game_def)
  from step_kickoff_success[OF this, of sample_externals "[[1, 0, 0]]"]
  show ?thesis by (auto simp: sample_game_def)
qed

theorem step_pairs_rows_with_players_witness:
  "(\<exists>g'. step sample_externals sample_game (ActionsArray [[1, 0, 1], [0, -1, 0], [7, 7, 7]])
            = Inr (False, g')
       \<and> length (players g') = 2 \<and> action (players g' ! 1) = [0, -1, 0])
   \<and> step sample_externals sample_game (ActionsArray [[1, 0, 1], [0, -1, 0], [7, 7, 7]])
       = step sample_externals sample_game (ActionsArray [[1, 0, 1], [0, -1, 0]])
   \<and> (\<exists>fin g'. step sample_externals (sample_game\<lparr>state := END\<rparr>) (ActionsArray [[1, 0, 1]])
                  = Inr (fin, g')
         \<and> action (players g' ! 0) = [1, 0, 1] \<and> players g' ! 1 = sample_blue)
   \<and> step sample_externals sample_recorded_game (ActionsArray [[1, 0, 1], [0, -1, 0], [7, 7, 7]])
       = Inl IndexError
   \<and> step sample_externals sample_game (ActionsSeq [ActNone, ActSeq [CInt 0, CNone, CInt 1]])
       = step sample_externals sample_game (ActionsArray [[0, 0, 0], [0, 0, 1]])"
proof (intro conjI)
  let ?rows = "[[1, 0, 1], [0, -1, 0], [7, 7, 7 :: int]]"
  have pre: "state sample_game = KICKOFF \<and> discs (stadium_game sample_game) \<noteq> []"
    and none: "recorder sample_game = None"
    and n: "length (players sample_game) = 2"
    by (simp_all add: sample_game_def)
  have frame: "\<forall>st sc p h. action (fst (resolve_movement sample_externals st sc p h)) = action p"
    by (simp add: sample_externals_def sample_resolve_movement_def)
  from step_pairs_rows_with_players[of sample_externals sample_game ?rows] none frame
  obtain ps h where len: "length ps = length (players sample_game)"
    and act: "\<forall>i. i < length ?rows \<and> i < length (players sample_game) \<longrightarrow>
                   action (ps ! i) = ?rows ! i"
    and ko: "state sample_game = KICKOFF \<and> discs (stadium_game sample_game) \<noteq> [] \<longrightarrow>
                (\<exists>g'. step sample_externals sample_game (ActionsArray ?rows) = Inr (False, g'))"
    and kept: "\<forall>fin g'. step sample_externals sample_game (ActionsArray ?rows) = Inr (fin, g')
                 \<longrightarrow> players g' = ps"
    and tk: "step sample_externals sample_game (ActionsArray ?rows) =
               step sample_externals sample_game
                 (ActionsArray (take (length (players sample_game)) ?rows))"
    by blast
  from ko pre obtain g' where
    run: "step sample_externals sample_game (ActionsArray ?rows) = Inr (False, g')"
    by blast
  with kept have ps: "players g' = ps" by blast
  from act[rule_format, of 1] n have a1: "action (ps ! 1) = [0, -1, 0]" by simp
  from run ps len n a1
  show "\<exists>g'. step sample_externals sample_game (ActionsArray ?rows) = Inr (False, g')
       \<and> length (players g') = 2 \<and> action (players g' ! 1) = [0, -1, 0]"
    by (intro exI[of _ g']) simp
  from tk n
  show "step sample_externals sample_game (ActionsArray ?rows)
       = step sample_externals sample_game (ActionsArray [[1, 0, 1], [0, -1, 0]])"
    by simp
next
  let ?g = "sample_game\<lparr>state := END\<rparr>"
  let ?rows = "[[1, 0, 1 :: int]]"
  have st: "state ?g = END" and none: "recorder ?g = None"
    and pl: "players ?g = [sample_red, sample_blue]"
    by (simp_all add: sample_game_def)
  have frame: "\<forall>st sc p h. action (fst (resolve_movement sample_externals st sc p h)) = action p"
    by (simp add: sample_externals_def sample_resolve_movement_def)
  from step_pairs_rows_with_players[of sample_externals ?g ?rows] none frame
  obtain ps h where len: "length ps = length (players ?g)"
    and dr: "drop (length ?rows) ps = drop (length ?rows) (players ?g)"
    and act: "\<forall>i. i < length ?rows \<and> i < length (players ?g) \<longrightarrow> action (ps ! i) = ?rows ! i"
    and en: "state ?g = END \<longrightarrow>
               (\<exists>fin g'. step sample_externals ?g (ActionsArray ?rows) = Inr (fin, g'))"
    and kept: "\<forall>fin g'. step sample_externals ?g (ActionsArray ?rows) = Inr (fin, g')
                 \<longrightarrow> players g' = ps"
    by blast
  from en st obtain fin g' where
    run: "step sample_externals ?g (ActionsArray ?rows) = Inr (fin, g')"
    by blast
  with kept have ps: "players g' = ps" by blast
  from act[rule_format, of 0] pl have a0: "action (ps ! 0) = [1, 0, 1]" by simp
  from dr len pl have "ps ! 1 = sample_blue"
    by (metis One_nat_def Suc_1 drop_Suc_Cons drop0 length_Cons list.size(3) list.size(4)
        nth_via_drop)
  with run ps a0
  show "\<exists>fin g'. step sample_externals ?g (ActionsArray ?rows) = Inr (fin, g')
         \<and> action (players g' ! 0) = [1, 0, 1] \<and> players g' ! 1 = sample_blue"
    by (intro exI[of _ fin] exI[of _ g']) simp
next
  let ?rows = "[[1, 0, 1], [0, -1, 0], [7, 7, 7 :: int]]"
  let ?r = "recorder_start sample_externals (players sample_game) RED sample_recorder"
  have rec: "state sample_recorded_game = KICKOFF \<and> discs (stadium_game sample_recorded_game) \<noteq> []
      \<and> recorder sample_recorded_game = Some ?r"
    by (simp add: sample_recorded_game_def sample_game_def)
  have pa: "player_action ?r = [PList [], PList []]"
    by (simp add: recorder_start_def sample_game_def)
  from step_pairs_rows_with_players[of sample_externals sample_recorded_game ?rows ?r] rec
  show "step sample_externals sample_recorded_game (ActionsArray ?rows) = Inl IndexError"
    by (simp add: pa)
next
  let ?as = "[ActNone, ActSeq [CInt 0, CNone, CInt 1]]"
  let ?rows = "[[0, 0, 0], [0, 0, 1 :: int]]"
  have conv: "comprehension normalize_action ?as = Inr ?rows \<and> np_array ?rows = Inr ?rows"
    by (simp add: except_type_value_def DEFAULT_ACTION_def np_array_def zero_if_none_def)
  from step_pairs_rows_with_players[of sample_externals sample_game ?rows _ ?as ?rows] conv
  show "step sample_externals sample_game (ActionsSeq ?as)
       = step sample_externals sample_game (ActionsArray ?rows)"
    by blast
qed

subsection \<open>The action recorder\<close>

lemma recorder_step_loop_length:
  "recorder_step_loop X i rows pa = Inr pa' \<Longrightarrow> length pa' = length pa"
proof (induction rows arbitrary: i pa)
  case Nil
  then show ?case by simp
next
  case (Cons row rows)
  from Cons.prems obtain xs v where
    "recorder_step_loop X (Suc i) rows (pa[i := PList (xs @ [PInt v])]) = Inr pa'"
    by (auto split: if_splits pyval.splits sum.splits)
  from Cons.IH[OF this] show ?case by simp
qed

lemma recorder_step_invariant:
  assumes "recorder_step X rows r = Inr r'"
  shows "options r' = options r \<and> player_info r' = player_info r
         \<and> length (player_action r') = length (player_action r)"
  using assms
  by (auto simp: recorder_step_def split: sum.splits dest: recorder_step_loop_length)

lemma recorder_steps_invariant:
  "recorder_steps X tks r = Inr r' \<Longrightarrow>
     options r' = options r \<and> player_info r' = player_info r
     \<and> length (player_action r') = length (player_action r)"
proof (induction tks arbitrary: r)
  case Nil
  then show ?case by simp
next
  case (Cons rows tks)
  from Cons.prems obtain r1 where s: "recorder_step X rows r = Inr r1"
    and rest: "recorder_steps X tks r1 = Inr r'"
    by (auto split: sum.splits)
  from Cons.IH[OF rest] recorder_step_invariant[OF s] show ?case by simp
qed

lemma recorded_shape:
  assumes "recorder_steps X tks (recorder_start X ps tk r0) = Inr r"
  shows "(\<exists>opt. options r = [opt]) \<and> length (player_info r) = length (player_action r)"
  using recorder_steps_invariant[OF assms] by (simp add: recorder_start_def)

lemma unpack_pairs_zip:
  "unpack_pairs (map (\<lambda>(info, act). PList [info, act]) zs) = Inr zs"
  by (induction zs) auto

lemma stop_then_read:
  assumes codec: "\<forall>bytes. packb (recording_value r) = Inr bytes \<longrightarrow>
                    unpackb bytes = Inr (recording_value r)"
    and opt: "options r = [opt]"
    and len: "length (player_info r) = length (player_action r)"
    and stop: "recorder_stop py_str path_join packb now sc True r fs = Inr (r1, fs1)"
  shows "\<exists>r2. read_from_file unpackb r1 (path_join (folder_rec r1) (filename r1)) fs1 = Inr r2
           \<and> options r2 = options r \<and> player_info r2 = player_info r
           \<and> player_action r2 = player_action r"
proof -
  let ?rec = "recording_value r"
  let ?name = "generate_replay_name py_str now sc (r\<lparr>recording := ?rec\<rparr>)"
  from stop opt obtain bytes where packed: "packb ?rec = Inr bytes"
    and r1: "folder_rec r1 = folder_rec r" "filename r1 = ?name"
    and fs1: "contents fs1 = (contents fs)(path_join (folder_rec r) ?name \<mapsto> bytes)"
    by (auto simp: recorder_stop_def save_def Let_def recording_value_def
        split: sum.splits option.splits)
  from codec packed have unpacked: "unpackb bytes = Inr ?rec" by blast
  have "read_from_file unpackb r1 (path_join (folder_rec r1) (filename r1)) fs1 =
          Inr (r1\<lparr>recording := ?rec, options := [opt],
                 player_info := map fst (zip (player_info r) (player_action r)),
                 player_action := map snd (zip (player_info r) (player_action r))\<rparr>)"
    by (simp add: read_from_file_def r1 fs1 unpacked)
       (simp add: recording_value_def opt unpack_pairs_zip)
  then show ?thesis using opt len by simp
qed

lemma recorder_stop_result:
  assumes "options r = [opt]"
  shows "recorder_stop py_str path_join packb now sc True r fs =
     (case open_error fs (path_join (folder_rec r)
               (generate_replay_name py_str now sc (r\<lparr>recording := recording_value r\<rparr>))) of
        Some e \<Rightarrow> Inl e
      | None \<Rightarrow>
          (case packb (recording_value r) of
             Inl e \<Rightarrow> Inl e
           | Inr bytes \<Rightarrow>
               Inr (r\<lparr>filename :=
                        generate_replay_name py_str now sc (r\<lparr>recording := recording_value r\<rparr>),
                      recording := PList [], player_info := [], player_action := [],
                      options := []\<rparr>,
                    fs\<lparr>contents := (contents fs)
                        (path_join (folder_rec r)
                           (generate_replay_name py_str now sc
                              (r\<lparr>recording := recording_value r\<rparr>)) \<mapsto> bytes)\<rparr>)))"
  using assms
  by (simp add: recorder_stop_def save_def Let_def recording_value_def
      split: sum.splits option.splits)

text \<open>
  C9. For a recorder that was started and has recorded any number of ticks, when
  \<^verbatim>\<open>stop(save=True)\<close> returns, that is, when the file could be opened for writing in the
  recorder's folder and the recording could be packed, and provided \<^verbatim>\<open>msgpack.unpackb\<close>
  gives back the recording from the bytes that \<^verbatim>\<open>msgpack.packb\<close> made of it: reading the file
  that was written (in the recorder's folder, under the name left in \<^verbatim>\<open>filename\<close>)
  succeeds and gives the options, the player information and the action streams that the
  recorder held before the stop.
\<close>

theorem recording_round_trip:
  assumes rec: "recorder_steps X tks (recorder_start X ps tk r0) = Inr r"
    and stop: "recorder_stop py_str path_join packb now sc True r fs = Inr (r1, fs1)"
    and codec: "\<forall>bytes. packb (recording_value r) = Inr bytes \<longrightarrow>
                    unpackb bytes = Inr (recording_value r)"
  shows "\<exists>r2. read_from_file unpackb r1 (path_join (folder_rec r1) (filename r1)) fs1 = Inr r2
           \<and> options r2 = options r \<and> player_info r2 = player_info r
           \<and> player_action r2 = player_action r"
proof -
  from recorded_shape[OF rec] obtain opt where opt: "options r = [opt]"
    and len: "length (player_info r) = length (player_action r)"
    by blast
  from stop_then_read[of packb r unpackb, OF codec opt len stop] show ?thesis .
qed

lemma digit_chars:
  "char_of (48 :: nat) = CHR ''0''" "char_of (49 :: nat) = CHR ''1''"
  "char_of (50 :: nat) = CHR ''2''" "char_of (51 :: nat) = CHR ''3''"
  "char_of (52 :: nat) = CHR ''4''" "char_of (53 :: nat) = CHR ''5''"
  "char_of (54 :: nat) = CHR ''6''" "char_of (55 :: nat) = CHR ''7''"
  "char_of (56 :: nat) = CHR ''8''" "char_of (57 :: nat) = CHR ''9''"
  by code_simp+

lemma sample_recording:
  "recorder_steps sample_externals sample_ticks
     (recorder_start sample_externals (players sample_game) RED sample_recorder) =
   Inr (sample_recorder\<lparr>
     player_info := [PList [PStr ''P0'', PStr ''0'', PInt 1], PList [PStr ''P1'', PStr ''1'', PInt 2]],
     player_action := [PList [PInt 24, PInt 0], PList [PInt 2, PInt 5]],
     options := [PInt 8]\<rparr>)"
  by (simp add: sample_ticks_def recorder_start_def recorder_step_def input_translate_js_def
      sample_externals_def sample_game_def sample_red_def sample_blue_def sample_recorder_def
      str_int_def digit_chars)

theorem recording_round_trip_witness:
  "\<exists>r r1 fs1 r2.
     recorder_steps sample_externals sample_ticks
       (recorder_start sample_externals (players sample_game) RED sample_recorder) = Inr r
     \<and> recorder_stop sample_py_str sample_path_join sample_packb 1700000000
           (score sample_game) True r sample_files = Inr (r1, fs1)
     \<and> filename r1 = ''HBR_1700000000_0-0_8.hbar''
     \<and> read_from_file Inr r1 (sample_path_join (folder_rec r1) (filename r1)) fs1 = Inr r2
     \<and> options r2 = [PInt 8]
     \<and> player_info r2 =
           [PList [PStr ''P0'', PStr ''0'', PInt 1], PList [PStr ''P1'', PStr ''1'', PInt 2]]
     \<and> player_action r2 = [PList [PInt 24, PInt 0], PList [PInt 2, PInt 5]]
     \<and> recorder_stop sample_py_str sample_path_join sample_packb 1700000000
           (score sample_game) True r sample_no_folder = Inl FileNotFoundError"
proof -
  let ?r = "sample_recorder\<lparr>
     player_info := [PList [PStr ''P0'', PStr ''0'', PInt 1], PList [PStr ''P1'', PStr ''1'', PInt 2]],
     player_action := [PList [PInt 24, PInt 0], PList [PInt 2, PInt 5]],
     options := [PInt 8]\<rparr>"
  have opt: "options ?r = [PInt 8]" by simp
  have name: "generate_replay_name sample_py_str 1700000000 (score sample_game)
               (?r\<lparr>recording := recording_value ?r\<rparr>) = ''HBR_1700000000_0-0_8.hbar''"
    by (simp add: generate_replay_name_def sample_py_str_def str_int_def digit_chars
        sample_game_def)
  have folder: "folder_rec ?r = ''recordings''" by (simp add: sample_recorder_def)
  obtain r1 fs1 where stop:
    "recorder_stop sample_py_str sample_path_join sample_packb 1700000000
       (score sample_game) True ?r sample_files = Inr (r1, fs1)"
    and fn: "filename r1 = ''HBR_1700000000_0-0_8.hbar''"
    unfolding recorder_stop_result[OF opt] name folder
    by (simp add: sample_files_def sample_path_join_def sample_packb_def)
  have fail: "recorder_stop sample_py_str sample_path_join sample_packb 1700000000
       (score sample_game) True ?r sample_no_folder = Inl FileNotFoundError"
    unfolding recorder_stop_result[OF opt]
    by (simp add: sample_no_folder_def)
  have codec: "\<forall>bytes. sample_packb (recording_value ?r) = Inr bytes \<longrightarrow>
                 (Inr bytes :: error + pyval) = Inr (recording_value ?r)"
    by (simp add: sample_packb_def)
  from recording_round_trip[of sample_externals sample_ticks "players sample_game" RED
      sample_recorder ?r sample_py_str sample_path_join sample_packb 1700000000
      "score sample_game" sample_files r1 fs1 Inr, OF sample_recording stop codec]
  obtain r2 where "read_from_file Inr r1 (sample_path_join (folder_rec r1) (filename r1)) fs1 = Inr r2"
    "options r2 = options ?r" "player_info r2 = player_info ?r" "player_action r2 = player_action ?r"
    by blast
  then show ?thesis using sample_recording stop fn fail
    by (intro exI[of _ ?r] exI[of _ r1] exI[of _ fs1] exI[of _ r2]) simp
qed

end
